theory Spec2Isabelle
  imports Main
begin

section \<open>Python values, exceptions and the request\<close>

text \<open>
  The router of django-mako-plus (\<^verbatim>\<open>src/django_mako_plus/router.py\<close>) is
  embedded as pure functions. An exception is a value of \<open>exn\<close>; a call
  that may raise returns \<open>exn + 'a\<close> with \<open>Inl\<close> for the raised exception.
  The constructors are the exception classes the router raises or catches; an exception
  of any other class is \<open>OtherException\<close>.
\<close>

datatype exn =
    ImproperlyConfigured string
  | Http404
  | ViewDoesNotExist string
  | TemplateDoesNotExist string
  | InternalRedirectException string string
  | RedirectException string
  | NotDecoratedError
  | ImportError
  | ValueError
  | AttributeError string
  | NameError string
  | OtherException string

text \<open>\<^verbatim>\<open>str(exc)\<close>: the message the exception was built with.\<close>

fun str_exn :: "exn \<Rightarrow> string" where
  "str_exn (ImproperlyConfigured m) = m"
| "str_exn Http404 = []"
| "str_exn (ViewDoesNotExist m) = m"
| "str_exn (TemplateDoesNotExist m) = m"
| "str_exn (InternalRedirectException m f) = []"
| "str_exn (RedirectException u) = []"
| "str_exn NotDecoratedError = []"
| "str_exn ImportError = []"
| "str_exn ValueError = []"
| "str_exn (AttributeError m) = m"
| "str_exn (NameError m) = m"
| "str_exn (OtherException m) = m"

text \<open>
  Modelled from the spec: \<^verbatim>\<open>request.urlparams\<close> is an object of a class that is not
  under src/. The spec calls it the ordered URL parameter sequence; its
  \<^verbatim>\<open>check_length\<close> fails with the not-found condition when it holds more values than
  the handler declares, and indexing it at a supplied position gives the value supplied
  there. What indexing gives beyond the supplied values is said nowhere, so it is the
  field \<open>url_beyond\<close> of the model (a value, or an exception).
\<close>

record URLParamList =
  url_items :: "string list"
  url_beyond :: "exn + string"

record request =
  req_method :: string
  req_path :: string
  urlparams :: URLParamList
  dmp_router_app :: string
  dmp_router_page :: string
  dmp_router_module :: string
  dmp_router_function :: string
  dmp_router_class :: "string option"

text \<open>
  The responses of \<^verbatim>\<open>django.http\<close>; every constructor is an instance of
  \<^verbatim>\<open>HttpResponse\<close> or of \<^verbatim>\<open>StreamingHttpResponse\<close>.
\<close>

datatype response =
    HttpResponse string
  | StreamingHttpResponse string
  | HttpResponseNotAllowed "string list"
  | HttpResponseNotFound string
  | HttpResponseRedirect string

text \<open>
  The Python values that travel through the router. \<open>PyEmpty\<close> is the sentinel
  \<^verbatim>\<open>inspect.Parameter.empty\<close>.
\<close>

datatype pyval =
    PyNone
  | PyEmpty
  | PyStr string
  | PyInt int
  | PyRequest request
  | PyResponse response
  | PyObject string

type_synonym kwargs = "(string \<times> pyval) list"

text \<open>\<^verbatim>\<open>isinstance(v, (HttpResponse, StreamingHttpResponse))\<close>\<close>

fun is_response :: "pyval \<Rightarrow> bool" where
  "is_response (PyResponse r) = True"
| "is_response v = False"

section \<open>View parameters and converters\<close>

text \<open>
  \<^verbatim>\<open>ConversionTask(request, decorator_kwargs, module, function)\<close>; the module and the
  function are held by their names.
\<close>

record ConversionTask =
  ct_request :: request
  ct_decorator_kwargs :: "kwargs option"
  ct_module :: string
  ct_function :: string

text \<open>
  \<^verbatim>\<open>class ViewParameter\<close>: name, type, default and converter. A converter is called as
  \<^verbatim>\<open>converter(value, parameter, ctask)\<close>; in the model it reads the name, type and default
  of the parameter it is given.
\<close>

record parameter =
  vp_name :: string
  vp_type :: pyval
  vp_default :: pyval

type_synonym converter = "pyval \<Rightarrow> parameter \<Rightarrow> ConversionTask \<Rightarrow> exn + pyval"

record ViewParameter = parameter +
  vp_converter :: "converter option"

section \<open>Functions, classes and modules\<close>

text \<open>
  A callable found in a view module. \<open>fn_marker\<close> is the registration that the decorator
  \<^verbatim>\<open>@view_function\<close> leaves on it (its keyword arguments), \<open>fn_signature\<close> is
  \<^verbatim>\<open>inspect.signature(func).parameters\<close> as (name, default) pairs,
  \<open>fn_annotations\<close> is \<^verbatim>\<open>__annotations__\<close>, \<open>fn_view_parameter\<close> is what
  \<^verbatim>\<open>view_parameter.update(func, vp)\<close> does to a parameter, and \<open>fn_call\<close> is the call
  \<^verbatim>\<open>func(*args, **kwargs)\<close>.
\<close>

record pyfunc =
  fn_name :: string
  fn_marker :: "kwargs option"
  fn_signature :: "exn + (string \<times> pyval) list"
  fn_annotations :: "(string \<times> pyval) list"
  fn_view_parameter :: "ViewParameter \<Rightarrow> ViewParameter"
  fn_call :: "pyval list \<Rightarrow> kwargs \<Rightarrow> exn + pyval"

text \<open>
  An instance of a subclass of \<^verbatim>\<open>django.views.generic.View\<close>: its
  \<^verbatim>\<open>http_method_names\<close> and the bound methods \<^verbatim>\<open>getattr\<close> finds on it.
\<close>

record view_instance =
  inst_qualname :: string
  http_method_names :: "string list"
  inst_attrs :: "(string \<times> pyfunc) list"

record pyclass =
  cls_marker :: "kwargs option"
  cls_new :: "exn + view_instance"

datatype pyobj =
    PyFunction pyfunc
  | PyViewClass pyclass
  | PyOther pyval

record pymodule =
  mod_name :: string
  mod_attrs :: "(string \<times> pyobj) list"

section \<open>Routers\<close>

record view_function_router =
  rt_module :: pymodule
  rt_function :: pyfunc
  rt_decorator_kwargs :: "kwargs option"
  rt_parameters :: "ViewParameter list"

text \<open>
  What \<^verbatim>\<open>request.dmp_router_callback\<close> can hold: one of the four router classes, an
  exception object (the loop stores a \<^verbatim>\<open>ViewDoesNotExist\<close> there), or an attribute of
  a module as \<^verbatim>\<open>getattr\<close> returned it.
\<close>

datatype callback =
    ViewFunctionRouter view_function_router
  | ClassBasedRouter "(string \<times> view_function_router) list"
  | TemplateViewRouter string string
  | RegistryExceptionRouter exn
  | ExceptionObject exn
  | ModuleAttribute pyobj

record dispatch = request +
  dmp_router_callback :: "callback option"

section \<open>The log, the signals and the collaborators\<close>

datatype level = INFO | WARNING | ERROR

datatype log_entry = Log level string

datatype dmp_signal =
    dmp_signal_pre_process_request
  | dmp_signal_post_process_request
  | dmp_signal_internal_redirect_exception
  | dmp_signal_redirect_exception

text \<open>
  The effects of the router: the calls made to the logger, and the signals sent, both in
  the order they happened.
\<close>

record world =
  logged :: "log_entry list"
  sent :: "dmp_signal list"

text \<open>
  The collaborators of the router. \<open>find_spec\<close> answers whether
  \<^verbatim>\<open>importlib.util.find_spec\<close> found a spec (\<open>False\<close> is \<^verbatim>\<open>None\<close>);
  \<open>get_template\<close> is
  \<^verbatim>\<open>get_dmp_instance().get_template_loader(app).get_template(name)\<close> and gives the
  template's \<^verbatim>\<open>render_to_response\<close>; \<open>SIGNALS\<close> is
  \<^verbatim>\<open>DMP_OPTIONS.get('SIGNALS', False)\<close>; \<open>info_enabled\<close> is
  \<^verbatim>\<open>log.isEnabledFor(logging.INFO)\<close>; the four receiver lists are the receivers
  connected to the four signals.

  Modelled from the spec: \<open>ctask_converter\<close> is the \<^verbatim>\<open>converter\<close> of a
  \<^verbatim>\<open>ConversionTask\<close> (converter.py is not under src/), the pipeline's type-driven
  default. \<open>redirect_response\<close> is \<^verbatim>\<open>RedirectException.get_response\<close>
  (exceptions.py is not under src/), which gives the redirect's own response object.
\<close>

record env =
  find_spec :: "string \<Rightarrow> exn + bool"
  import_module :: "string \<Rightarrow> exn + pymodule"
  get_template :: "string \<Rightarrow> string \<Rightarrow> exn + (request \<Rightarrow> kwargs \<Rightarrow> exn + pyval)"
  ctask_converter :: converter
  redirect_response :: "string \<Rightarrow> request \<Rightarrow> exn + response"
  SIGNALS :: bool
  info_enabled :: bool
  pre_receivers :: "(request \<Rightarrow> exn + pyval) list"
  post_receivers :: "(request \<times> pyval \<Rightarrow> exn + pyval) list"
  internal_redirect_receivers :: "(request \<times> exn \<Rightarrow> exn + pyval) list"
  redirect_receivers :: "(request \<times> exn \<Rightarrow> exn + pyval) list"

text \<open>
  \<^verbatim>\<open>signal.send(...)\<close> calls every receiver in the order of connection and returns
  their answers; an exception of a receiver propagates.
\<close>

fun send :: "('a \<Rightarrow> exn + pyval) list \<Rightarrow> 'a \<Rightarrow> exn + pyval list" where
  "send [] a = Inr []"
| "send (r # rs) a =
     (case r a of
        Inl e \<Rightarrow> Inl e
      | Inr v \<Rightarrow> (case send rs a of Inl e \<Rightarrow> Inl e | Inr vs \<Rightarrow> Inr (v # vs)))"

section \<open>Strings and dictionaries\<close>

text \<open>\<^verbatim>\<open>str.lower\<close> and \<^verbatim>\<open>str.upper\<close> on ASCII text (HTTP method names).\<close>

definition lower_char :: "char \<Rightarrow> char" where
  "lower_char c =
     (if 65 \<le> (of_char c :: nat) \<and> (of_char c :: nat) \<le> 90
      then char_of ((of_char c :: nat) + 32) else c)"

definition upper_char :: "char \<Rightarrow> char" where
  "upper_char c =
     (if 97 \<le> (of_char c :: nat) \<and> (of_char c :: nat) \<le> 122
      then char_of ((of_char c :: nat) - 32) else c)"

definition lower :: "string \<Rightarrow> string" where
  "lower s = map lower_char s"

definition upper :: "string \<Rightarrow> string" where
  "upper s = map upper_char s"

text \<open>\<^verbatim>\<open>', '.join(xs)\<close>\<close>

fun join :: "string list \<Rightarrow> string" where
  "join [] = []"
| "join [x] = x"
| "join (x # y # ys) = x @ '', '' @ join (y # ys)"

text \<open>
  \<^verbatim>\<open>repr(s)\<close> of a string: in double quotes when the string holds an apostrophe and no
  double quote, in apostrophes otherwise; the quote character and the backslash are
  escaped with a backslash, tab, newline and carriage return are written
  \<^verbatim>\<open>\t\<close>, \<^verbatim>\<open>\n\<close>, \<^verbatim>\<open>\r\<close>, and any other control character as \<^verbatim>\<open>\xhh\<close>.
  A character outside ASCII is kept as it is, as Python keeps the printable ones.
\<close>

definition hex_digit :: "nat \<Rightarrow> char" where
  "hex_digit n = ''0123456789abcdef'' ! (n mod 16)"

definition repr_char :: "char \<Rightarrow> char \<Rightarrow> string" where
  "repr_char quote c =
     (if c = quote \<or> c = CHR 0x5C then [CHR 0x5C, c]
      else if c = CHR 0x09 then [CHR 0x5C, CHR ''t'']
      else if c = CHR 0x0A then [CHR 0x5C, CHR ''n'']
      else if c = CHR 0x0D then [CHR 0x5C, CHR ''r'']
      else if (of_char c :: nat) < 32 \<or> (of_char c :: nat) = 127
      then [CHR 0x5C, CHR ''x'', hex_digit ((of_char c :: nat) div 16),
            hex_digit ((of_char c :: nat) mod 16)]
      else [c])"

definition repr_str :: "string \<Rightarrow> string" where
  "repr_str s =
     (let quote = (if CHR 0x27 \<in> set s \<and> CHR 0x22 \<notin> set s then CHR 0x22 else CHR 0x27)
      in [quote] @ concat (map (repr_char quote) s) @ [quote])"

text \<open>\<^verbatim>\<open>str(xs)\<close> of a list of strings: \<^verbatim>\<open>['a', 'b']\<close>.\<close>

definition str_list :: "string list \<Rightarrow> string" where
  "str_list xs = ''['' @ join (map repr_str xs) @ '']''"

text \<open>\<^verbatim>\<open>str(x)\<close> of a string or \<^verbatim>\<open>None\<close>.\<close>

fun str_opt :: "string option \<Rightarrow> string" where
  "str_opt None = ''None''"
| "str_opt (Some s) = s"

text \<open>
  A dictionary keeps its keys in the order of first insertion: \<^verbatim>\<open>d[k] = v\<close> replaces
  the value of a key that is there and appends a new key.
\<close>

fun dict_set :: "('k \<times> 'v) list \<Rightarrow> 'k \<Rightarrow> 'v \<Rightarrow> ('k \<times> 'v) list" where
  "dict_set [] k v = [(k, v)]"
| "dict_set (kv # kvs) k v =
     (if fst kv = k then (k, v) # kvs else kv # dict_set kvs k v)"

text \<open>\<^verbatim>\<open>d.pop(k, default)\<close>: the value of \<open>k\<close> and the dictionary without \<open>k\<close>.\<close>

definition pop :: "kwargs \<Rightarrow> string \<Rightarrow> pyval \<Rightarrow> pyval \<times> kwargs" where
  "pop kw k d =
     (case map_of kw k of
        Some v \<Rightarrow> (v, filter (\<lambda>kv. fst kv \<noteq> k) kw)
      | None \<Rightarrow> (d, kw))"

text \<open>
  The names bound in the module \<^verbatim>\<open>router.py\<close>: its imports (lines 1 to 18) and its
  definitions. A name that is neither here nor a builtin raises \<^verbatim>\<open>NameError\<close> when
  the statement that uses it runs.
\<close>

definition router_globals :: "string list" where
  "router_globals =
     [''settings'', ''url'', ''ImproperlyConfigured'', ''ViewDoesNotExist'',
      ''HttpRequest'', ''HttpResponse'', ''StreamingHttpResponse'',
      ''Http404'', ''HttpResponseNotAllowed'', ''TemplateDoesNotExist'', ''View'',
      ''ConversionTask'', ''view_function'', ''view_parameter'', ''NotDecoratedError'',
      ''InternalRedirectException'', ''RedirectException'',
      ''dmp_signal_pre_process_request'', ''dmp_signal_post_process_request'',
      ''dmp_signal_internal_redirect_exception'', ''dmp_signal_redirect_exception'',
      ''get_dmp_instance'', ''get_dmp_app_configs'', ''log'', ''DMP_OPTIONS'',
      ''sys'', ''logging'', ''inspect'', ''import_module'', ''find_spec'', ''namedtuple'',
      ''route_request'', ''router_factory'', ''ViewFunctionRouter'', ''ClassBasedRouter'',
      ''TemplateViewRouter'', ''RegistryExceptionRouter'', ''ViewParameter'']"

definition global_name :: "string \<Rightarrow> exn + unit" where
  "global_name n = (if n \<in> set router_globals then Inr () else Inl (NameError n))"

section \<open>ViewFunctionRouter\<close>

text \<open>
  \<^verbatim>\<open>ViewFunctionRouter.__init__\<close> (lines 157 to 172): one \<^verbatim>\<open>ViewParameter\<close> for every
  parameter of the signature but the first (the request), its type from the annotations,
  its default from the signature, no converter, then updated by
  \<^verbatim>\<open>view_parameter.update\<close>.
\<close>

definition new_parameter :: "pyfunc \<Rightarrow> string \<times> pyval \<Rightarrow> ViewParameter" where
  "new_parameter func p =
     fn_view_parameter func
       \<lparr>vp_name = fst p,
        vp_type = (case map_of (fn_annotations func) (fst p) of Some t \<Rightarrow> t | None \<Rightarrow> PyEmpty),
        vp_default = snd p,
        vp_converter = None\<rparr>"

definition ViewFunctionRouter_init ::
  "pymodule \<Rightarrow> pyfunc \<Rightarrow> kwargs option \<Rightarrow> exn + view_function_router" where
  "ViewFunctionRouter_init md func decorator_kwargs =
     (case fn_signature func of
        Inl e \<Rightarrow> Inl e
      | Inr ps \<Rightarrow>
          Inr \<lparr>rt_module = md, rt_function = func, rt_decorator_kwargs = decorator_kwargs,
               rt_parameters = map (new_parameter func) (drop 1 ps)\<rparr>)"

text \<open>
  Modelled from the spec: \<^verbatim>\<open>request.urlparams.check_length(n)\<close> and
  \<^verbatim>\<open>request.urlparams[i]\<close>, methods of the class of \<^verbatim>\<open>request.urlparams\<close>, which is
  not under src/. The spec: the number of positional URL parameters must not exceed the
  number of declared parameters, and the call fails with the too-many-URL-segments
  condition otherwise, which is a not-found response outside.
\<close>

definition check_length :: "URLParamList \<Rightarrow> nat \<Rightarrow> exn + unit" where
  "check_length ps n = (if n < length (url_items ps) then Inl Http404 else Inr ())"

definition urlparams_getitem :: "URLParamList \<Rightarrow> nat \<Rightarrow> exn + pyval" where
  "urlparams_getitem ps i =
     (if i < length (url_items ps) then Inr (PyStr (url_items ps ! i))
      else (case url_beyond ps of Inl e \<Rightarrow> Inl e | Inr s \<Rightarrow> Inr (PyStr s)))"

text \<open>
  Lines 182 to 185: the converter of the parameter when it has one, the converter of the
  task otherwise.
\<close>

definition convert :: "env \<Rightarrow> ConversionTask \<Rightarrow> ViewParameter \<Rightarrow> pyval \<Rightarrow> exn + pyval" where
  "convert env ctask p v =
     (case vp_converter p of
        Some c \<Rightarrow> c v (parameter.truncate p) ctask
      | None \<Rightarrow> ctask_converter env v (parameter.truncate p) ctask)"

text \<open>
  The loop of lines 179 to 186 from index \<open>i\<close> on, with the argument list built so far
  and the keyword arguments left. Python evaluates \<^verbatim>\<open>request.urlparams[i]\<close>, the default
  of \<^verbatim>\<open>kwargs.pop\<close>, before the call of \<^verbatim>\<open>pop\<close>.
\<close>

fun convert_parameters ::
  "env \<Rightarrow> ConversionTask \<Rightarrow> request \<Rightarrow> nat \<Rightarrow> ViewParameter list \<Rightarrow> pyval list \<Rightarrow> kwargs
     \<Rightarrow> exn + (pyval list \<times> kwargs)" where
  "convert_parameters env ctask req i [] args kw = Inr (args, kw)"
| "convert_parameters env ctask req i (p # ps) args kw =
     (case urlparams_getitem (urlparams req) i of
        Inl e \<Rightarrow> Inl e
      | Inr d \<Rightarrow>
          (case convert env ctask p (fst (pop kw (vp_name p) d)) of
             Inl e \<Rightarrow> Inl e
           | Inr v \<Rightarrow>
               convert_parameters env ctask req (Suc i) ps (args @ [v])
                 (snd (pop kw (vp_name p) d))))"

text \<open>
  \<^verbatim>\<open>ViewFunctionRouter.get_response\<close>, lines 176 to 186: the positional and the keyword
  arguments of the call of line 188, or the exception raised before it. Line 177 builds
  the \<^verbatim>\<open>ConversionTask\<close>.
\<close>

definition conversion_task :: "view_function_router \<Rightarrow> request \<Rightarrow> ConversionTask" where
  "conversion_task rt req =
     \<lparr>ct_request = req, ct_decorator_kwargs = rt_decorator_kwargs rt,
      ct_module = mod_name (rt_module rt), ct_function = fn_name (rt_function rt)\<rparr>"

definition get_response_call ::
  "env \<Rightarrow> view_function_router \<Rightarrow> request \<Rightarrow> kwargs \<Rightarrow> exn + (pyval list \<times> kwargs)" where
  "get_response_call env rt req kw =
     (case check_length (urlparams req) (length (rt_parameters rt)) of
        Inl e \<Rightarrow> Inl e
      | Inr u \<Rightarrow>
          convert_parameters env (conversion_task rt req) req 0 (rt_parameters rt)
            [PyRequest req] kw)"

definition ViewFunctionRouter_get_response ::
  "env \<Rightarrow> view_function_router \<Rightarrow> request \<Rightarrow> kwargs \<Rightarrow> exn + pyval" where
  "ViewFunctionRouter_get_response env rt req kw =
     (case get_response_call env rt req kw of
        Inl e \<Rightarrow> Inl e
      | Inr call \<Rightarrow> fn_call (rt_function rt) (fst call) (snd call))"

definition ViewFunctionRouter_message :: "request \<Rightarrow> string" where
  "ViewFunctionRouter_message req =
     ''view function '' @ dmp_router_module req @ ''.'' @ dmp_router_function req"

section \<open>ClassBasedRouter\<close>

text \<open>
  \<^verbatim>\<open>ClassBasedRouter.__init__\<close> (lines 196 to 201): the loop over
  \<^verbatim>\<open>instance.http_method_names\<close>, with the dictionary \<^verbatim>\<open>self.endpoints\<close> built so far.
\<close>

fun ClassBasedRouter_endpoints ::
  "pymodule \<Rightarrow> view_instance \<Rightarrow> kwargs option \<Rightarrow> string list
     \<Rightarrow> (string \<times> view_function_router) list \<Rightarrow> exn + (string \<times> view_function_router) list" where
  "ClassBasedRouter_endpoints md inst dk [] eps = Inr eps"
| "ClassBasedRouter_endpoints md inst dk (n # ns) eps =
     (case map_of (inst_attrs inst) n of
        None \<Rightarrow> ClassBasedRouter_endpoints md inst dk ns eps
      | Some func \<Rightarrow>
          (case ViewFunctionRouter_init md func dk of
             Inl e \<Rightarrow> Inl e
           | Inr rt \<Rightarrow> ClassBasedRouter_endpoints md inst dk ns (dict_set eps n rt)))"

definition ClassBasedRouter_init ::
  "pymodule \<Rightarrow> view_instance \<Rightarrow> kwargs option \<Rightarrow> exn + callback" where
  "ClassBasedRouter_init md inst decorator_kwargs =
     (case ClassBasedRouter_endpoints md inst decorator_kwargs (http_method_names inst) [] of
        Inl e \<Rightarrow> Inl e
      | Inr eps \<Rightarrow> Inr (ClassBasedRouter eps))"

definition log_to :: "world \<Rightarrow> log_entry \<Rightarrow> world" where
  "log_to w e = w\<lparr>logged := logged w @ [e]\<rparr>"

definition method_not_allowed_message :: "request \<Rightarrow> string" where
  "method_not_allowed_message req =
     ''Method Not Allowed ('' @ req_method req @ ''): '' @ req_path req"

text \<open>
  \<^verbatim>\<open>ClassBasedRouter.get_response\<close> of router.py (lines 203 to 208), and the one of
  router/router_class.py (lines 21 to 26), which logs at the level INFO. The second
  takes its \<^verbatim>\<open>ViewFunctionRouter\<close> from router/router_function.py, which is not under
  src/; the model uses the class of that name in router.py for both.
\<close>

definition ClassBasedRouter_get_response ::
  "env \<Rightarrow> (string \<times> view_function_router) list \<Rightarrow> request \<Rightarrow> kwargs \<Rightarrow> world
     \<Rightarrow> (exn + pyval) \<times> world" where
  "ClassBasedRouter_get_response env endpoints req kw w =
     (case map_of endpoints (lower (req_method req)) of
        Some endpoint \<Rightarrow> (ViewFunctionRouter_get_response env endpoint req kw, w)
      | None \<Rightarrow>
          (case global_name ''HttpResponseNotAllowed'' of
             Inl e \<Rightarrow> (Inl e, log_to w (Log WARNING (method_not_allowed_message req)))
           | Inr u \<Rightarrow>
               (Inr (PyResponse (HttpResponseNotAllowed (map upper (map fst endpoints)))),
                log_to w (Log WARNING (method_not_allowed_message req)))))"


definition ClassBasedRouter_message :: "request \<Rightarrow> string" where
  "ClassBasedRouter_message req =
     ''class-based view function '' @ dmp_router_module req @ ''.''
       @ str_opt (dmp_router_class req) @ ''.'' @ dmp_router_function req"

section \<open>TemplateViewRouter and RegistryExceptionRouter\<close>

definition TemplateViewRouter_init :: "env \<Rightarrow> string \<Rightarrow> string \<Rightarrow> exn + callback" where
  "TemplateViewRouter_init env app_name template_name =
     (case get_template env app_name template_name of
        Inl e \<Rightarrow> Inl e
      | Inr template \<Rightarrow> Inr (TemplateViewRouter app_name template_name))"

definition TemplateViewRouter_get_response ::
  "env \<Rightarrow> string \<Rightarrow> string \<Rightarrow> request \<Rightarrow> kwargs \<Rightarrow> exn + pyval" where
  "TemplateViewRouter_get_response env app_name template_name req kw =
     (case get_template env app_name template_name of
        Inl e \<Rightarrow> Inl e
      | Inr render_to_response \<Rightarrow> render_to_response req kw)"

definition TemplateViewRouter_message :: "string \<Rightarrow> request \<Rightarrow> string" where
  "TemplateViewRouter_message template_name req =
     ''template '' @ template_name @ '' (view function '' @ dmp_router_module req @ ''.''
       @ dmp_router_function req @ '' not found)''"

text \<open>
  \<^verbatim>\<open>RegistryExceptionRouter.get_response\<close> (lines 236 and 237) looks the global name
  \<^verbatim>\<open>HttpResponseNotFound\<close> up and calls it with \<^verbatim>\<open>str(self.exc)\<close>.
\<close>

definition RegistryExceptionRouter_get_response :: "exn \<Rightarrow> request \<Rightarrow> kwargs \<Rightarrow> exn + pyval" where
  "RegistryExceptionRouter_get_response exc req kw =
     (case global_name ''HttpResponseNotFound'' of
        Inl e \<Rightarrow> Inl e
      | Inr u \<Rightarrow> Inr (PyResponse (HttpResponseNotFound (str_exn exc))))"

definition RegistryExceptionRouter_message :: "exn \<Rightarrow> request \<Rightarrow> string" where
  "RegistryExceptionRouter_message exc req = str_exn exc"

text \<open>
  \<^verbatim>\<open>callback.message(request)\<close> and \<^verbatim>\<open>callback.get_response(request, **kwargs)\<close> for
  whatever the callback is. \<^verbatim>\<open>ViewDoesNotExist\<close> is a bare subclass of
  \<^verbatim>\<open>Exception\<close>, and neither an exception object nor a function or class taken from a
  module has an attribute \<^verbatim>\<open>message\<close> or \<^verbatim>\<open>get_response\<close>: the lookup raises
  \<^verbatim>\<open>AttributeError\<close>.
\<close>

fun message :: "callback \<Rightarrow> request \<Rightarrow> exn + string" where
  "message (ViewFunctionRouter rt) req = Inr (ViewFunctionRouter_message req)"
| "message (ClassBasedRouter eps) req = Inr (ClassBasedRouter_message req)"
| "message (TemplateViewRouter a t) req = Inr (TemplateViewRouter_message t req)"
| "message (RegistryExceptionRouter exc) req = Inr (RegistryExceptionRouter_message exc req)"
| "message (ExceptionObject exc) req = Inl (AttributeError ''message'')"
| "message (ModuleAttribute obj) req = Inl (AttributeError ''message'')"

fun get_response ::
  "env \<Rightarrow> callback \<Rightarrow> request \<Rightarrow> kwargs \<Rightarrow> world \<Rightarrow> (exn + pyval) \<times> world" where
  "get_response env (ViewFunctionRouter rt) req kw w =
     (ViewFunctionRouter_get_response env rt req kw, w)"
| "get_response env (ClassBasedRouter eps) req kw w =
     ClassBasedRouter_get_response env eps req kw w"
| "get_response env (TemplateViewRouter a t) req kw w =
     (TemplateViewRouter_get_response env a t req kw, w)"
| "get_response env (RegistryExceptionRouter exc) req kw w =
     (RegistryExceptionRouter_get_response exc req kw, w)"
| "get_response env (ExceptionObject exc) req kw w = (Inl (AttributeError ''get_response''), w)"
| "get_response env (ModuleAttribute obj) req kw w = (Inl (AttributeError ''get_response''), w)"

section \<open>router\_factory\<close>

text \<open>
  Modelled from the spec: \<^verbatim>\<open>view_function.get_args\<close> and
  \<^verbatim>\<open>view_function.is_decorated\<close> (decorators.py is not under src/). The spec: a function
  carries a registered-as-view marker set by an external decorator mechanism, with the
  decorator's configuration. \<^verbatim>\<open>get_args(func)[0]\<close> gives the keyword arguments of the
  marker and raises \<^verbatim>\<open>NotDecoratedError\<close> without one.
\<close>

fun view_function_marker :: "pyobj \<Rightarrow> kwargs option" where
  "view_function_marker (PyFunction f) = fn_marker f"
| "view_function_marker (PyViewClass c) = cls_marker c"
| "view_function_marker (PyOther v) = None"

definition view_function_get_args :: "pyobj \<Rightarrow> exn + kwargs" where
  "view_function_get_args func =
     (case view_function_marker func of None \<Rightarrow> Inl NotDecoratedError | Some k \<Rightarrow> Inr k)"

definition view_function_is_decorated :: "pyobj \<Rightarrow> bool" where
  "view_function_is_decorated func = (view_function_marker func \<noteq> None)"

text \<open>Lines 119 to 122: \<^verbatim>\<open>ValueError\<close> from \<^verbatim>\<open>find_spec\<close> counts as no spec.\<close>

fun spec_or_None :: "exn + bool \<Rightarrow> exn + bool" where
  "spec_or_None (Inl ValueError) = Inr False"
| "spec_or_None r = r"

text \<open>Lines 125 to 128: the template router, or both failures in a \<^verbatim>\<open>ViewDoesNotExist\<close>.\<close>

definition no_module_message :: "string \<Rightarrow> string \<Rightarrow> string \<Rightarrow> string" where
  "no_module_message module_name fallback_template e =
     ''View module '' @ module_name @ '' not found, and fallback template ''
       @ fallback_template @ '' could not be loaded ('' @ e @ '')''"

fun template_or_raise :: "string \<Rightarrow> string \<Rightarrow> exn + callback \<Rightarrow> exn + callback" where
  "template_or_raise module_name fallback_template (Inl (TemplateDoesNotExist e)) =
     Inl (ViewDoesNotExist (no_module_message module_name fallback_template e))"
| "template_or_raise module_name fallback_template r = r"

text \<open>Lines 138 to 141.\<close>

fun decorator_kwargs_of :: "exn + kwargs \<Rightarrow> exn + kwargs option" where
  "decorator_kwargs_of (Inl NotDecoratedError) = Inr None"
| "decorator_kwargs_of (Inl e) = Inl e"
| "decorator_kwargs_of (Inr k) = Inr (Some k)"

definition no_function_message :: "string \<Rightarrow> string \<Rightarrow> string" where
  "no_function_message module_name function_name =
     ''Module '' @ module_name @ '' found successfully, but view '' @ function_name
       @ '' is not defined in the module.''"

definition not_decorated_message :: "string \<Rightarrow> string \<Rightarrow> string" where
  "not_decorated_message module_name function_name =
     ''View '' @ module_name @ ''.'' @ function_name
       @ '' was found successfully, but it must be decorated with @view_function or be a subclass of django.views.generic.View.''"

text \<open>Lines 142 to 149, for the attribute \<open>func\<close> of the module.\<close>

fun router_of ::
  "pymodule \<Rightarrow> string \<Rightarrow> string \<Rightarrow> pyobj \<Rightarrow> kwargs option \<Rightarrow> exn + callback" where
  "router_of md module_name function_name (PyViewClass c) decorator_kwargs =
     (case cls_new c of
        Inl e \<Rightarrow> Inl e
      | Inr inst \<Rightarrow> ClassBasedRouter_init md inst decorator_kwargs)"
| "router_of md module_name function_name (PyFunction f) decorator_kwargs =
     (if \<not> view_function_is_decorated (PyFunction f)
      then Inl (ViewDoesNotExist (not_decorated_message module_name function_name))
      else (case ViewFunctionRouter_init md f decorator_kwargs of
              Inl e \<Rightarrow> Inl e
            | Inr rt \<Rightarrow> Inr (ViewFunctionRouter rt)))"
| "router_of md module_name function_name (PyOther v) decorator_kwargs =
     Inl (ViewDoesNotExist (not_decorated_message module_name function_name))"

text \<open>The body of the outer \<^verbatim>\<open>try\<close> (lines 116 to 149).\<close>

definition router_factory_try ::
  "env \<Rightarrow> string \<Rightarrow> string \<Rightarrow> string \<Rightarrow> string \<Rightarrow> exn + callback" where
  "router_factory_try env app_name module_name function_name fallback_template =
     (case spec_or_None (find_spec env module_name) of
        Inl e \<Rightarrow> Inl e
      | Inr found \<Rightarrow>
          if \<not> found
          then template_or_raise module_name fallback_template
                 (TemplateViewRouter_init env app_name fallback_template)
          else
            (case import_module env module_name of
               Inl e \<Rightarrow> Inl e
             | Inr md \<Rightarrow>
                 (case map_of (mod_attrs md) function_name of
                    None \<Rightarrow> Inl (ViewDoesNotExist (no_function_message module_name function_name))
                  | Some func \<Rightarrow>
                      (case decorator_kwargs_of (view_function_get_args func) of
                         Inl e \<Rightarrow> Inl e
                       | Inr decorator_kwargs \<Rightarrow>
                           router_of md module_name function_name func decorator_kwargs))))"

text \<open>Lines 151 and 152: the handler of the outer \<^verbatim>\<open>try\<close>.\<close>

fun except_ViewDoesNotExist :: "exn + callback \<Rightarrow> exn + callback" where
  "except_ViewDoesNotExist (Inl (ViewDoesNotExist m)) =
     Inr (RegistryExceptionRouter (ViewDoesNotExist m))"
| "except_ViewDoesNotExist r = r"

definition router_factory ::
  "env \<Rightarrow> string \<Rightarrow> string \<Rightarrow> string \<Rightarrow> string \<Rightarrow> exn + callback" where
  "router_factory env app_name module_name function_name fallback_template =
     except_ViewDoesNotExist
       (router_factory_try env app_name module_name function_name fallback_template)"

section \<open>route\_request\<close>

definition not_configured_message :: string where
  "not_configured_message =
     ''Variable request.dmp_router_callback does not exist (check MIDDLEWARE for `django_mako_plus.RequestInitMiddleware`).''"

definition processing_message :: "request \<Rightarrow> string" where
  "processing_message req =
     ''processing: app='' @ dmp_router_app req @ '', page='' @ dmp_router_page req
       @ '', module='' @ dmp_router_module req @ '', func='' @ dmp_router_function req
       @ '', urlparams='' @ str_list (url_items (urlparams req))"

definition no_response_message :: "string \<Rightarrow> string" where
  "no_response_message m =
     m @ '' failed to return an HttpResponse (or the post-signal overwrote it).  Returning Http404.''"

text \<open>
  Line 44: \<^verbatim>\<open>isinstance(callback, ViewDoesNotExist) or isinstance(callback,
  RegistryExceptionRouter)\<close>.
\<close>

fun view_not_found :: "callback \<Rightarrow> bool" where
  "view_not_found (ExceptionObject (ViewDoesNotExist m)) = True"
| "view_not_found (RegistryExceptionRouter exc) = True"
| "view_not_found cb = False"

text \<open>
  Lines 49 to 52: the pre-signal. The answer is the first receiver's response that is an
  \<^verbatim>\<open>HttpResponse\<close>, which \<^verbatim>\<open>route_request\<close> returns at once, or nothing.
\<close>

definition send_pre :: "env \<Rightarrow> request \<Rightarrow> world \<Rightarrow> (exn + pyval option) \<times> world" where
  "send_pre env req w =
     (if SIGNALS env
      then ((case send (pre_receivers env) req of
               Inl e \<Rightarrow> Inl e
             | Inr rets \<Rightarrow> Inr (find is_response rets)),
            w\<lparr>sent := sent w @ [dmp_signal_pre_process_request]\<rparr>)
      else (Inr None, w))"

text \<open>
  Lines 62 to 65: the post-signal. Every receiver is sent the response of the view; the
  last answer that is not \<^verbatim>\<open>None\<close> replaces it.
\<close>

definition send_post :: "env \<Rightarrow> request \<Rightarrow> pyval \<Rightarrow> world \<Rightarrow> (exn + pyval) \<times> world" where
  "send_post env req response w =
     (if SIGNALS env
      then ((case send (post_receivers env) (req, response) of
               Inl e \<Rightarrow> Inl e
             | Inr rets \<Rightarrow> Inr (fold (\<lambda>ret r. if ret \<noteq> PyNone then ret else r) rets response)),
            w\<lparr>sent := sent w @ [dmp_signal_post_process_request]\<rparr>)
      else (Inr response, w))"

text \<open>Lines 54 to 73 of the \<^verbatim>\<open>try\<close> body: the call of the view and what follows it.\<close>

definition call_view ::
  "env \<Rightarrow> callback \<Rightarrow> request \<Rightarrow> kwargs \<Rightarrow> world \<Rightarrow> (exn + pyval) \<times> world" where
  "call_view env cb req kw w =
     (case (if info_enabled env
            then (case message cb req of
                    Inl e \<Rightarrow> Inl e
                  | Inr m \<Rightarrow> Inr (log_to w (Log INFO (''calling '' @ m))))
            else Inr w) of
        Inl e \<Rightarrow> (Inl e, w)
      | Inr w1 \<Rightarrow>
          (case get_response env cb req kw w1 of
             (Inl e, w2) \<Rightarrow> (Inl e, w2)
           | (Inr response, w2) \<Rightarrow>
               (case send_post env req response w2 of
                  (Inl e, w3) \<Rightarrow> (Inl e, w3)
                | (Inr response', w3) \<Rightarrow>
                    if \<not> is_response response'
                    then (case message cb req of
                            Inl e \<Rightarrow> (Inl e, w3)
                          | Inr m \<Rightarrow> (Inl Http404, log_to w3 (Log ERROR (no_response_message m))))
                    else (Inr response', w3))))"

text \<open>
  The \<^verbatim>\<open>try\<close> body (lines 36 to 73): the value returned or the exception raised, and the
  effects.
\<close>

definition route_attempt ::
  "env \<Rightarrow> dispatch \<Rightarrow> kwargs \<Rightarrow> world \<Rightarrow> (exn + pyval) \<times> world" where
  "route_attempt env d kw w =
     (case dmp_router_callback d of
        None \<Rightarrow> (Inl (ImproperlyConfigured not_configured_message), w)
      | Some cb \<Rightarrow>
          (let req = request.truncate d;
               w1 = (if info_enabled env then log_to w (Log INFO (processing_message req)) else w)
           in if view_not_found cb
              then (case message cb req of
                      Inl e \<Rightarrow> (Inl e, w1)
                    | Inr m \<Rightarrow> (Inl Http404, log_to w1 (Log ERROR m)))
              else (case send_pre env req w1 of
                      (Inl e, w2) \<Rightarrow> (Inl e, w2)
                    | (Inr (Some ret_response), w2) \<Rightarrow> (Inr ret_response, w2)
                    | (Inr None, w2) \<Rightarrow> call_view env cb req kw w2)))"

text \<open>
  Lines 82 to 88: the callback after an internal redirect. An attribute that is missing
  or \<^verbatim>\<open>None\<close>, or an \<^verbatim>\<open>ImportError\<close>, leaves a \<^verbatim>\<open>ViewDoesNotExist\<close> object; any
  other exception of the import propagates.
\<close>

definition redirect_no_function_message :: "string \<Rightarrow> string \<Rightarrow> string" where
  "redirect_no_function_message m f =
     ''module '' @ m @ '' found successfully during internal redirect, but view function ''
       @ f @ '' is not defined in the module.''"

definition redirect_no_module_message :: "string \<Rightarrow> string \<Rightarrow> string" where
  "redirect_no_module_message m f =
     ''view '' @ m @ ''.'' @ f @ '' not found during internal redirect.''"

fun attribute_or_marker :: "string \<Rightarrow> string \<Rightarrow> pyobj option \<Rightarrow> callback" where
  "attribute_or_marker m f None =
     ExceptionObject (ViewDoesNotExist (redirect_no_function_message m f))"
| "attribute_or_marker m f (Some (PyOther PyNone)) =
     ExceptionObject (ViewDoesNotExist (redirect_no_function_message m f))"
| "attribute_or_marker m f (Some obj) = ModuleAttribute obj"

fun re_resolve :: "string \<Rightarrow> string \<Rightarrow> exn + pymodule \<Rightarrow> exn + callback" where
  "re_resolve m f (Inr md) = Inr (attribute_or_marker m f (map_of (mod_attrs md) f))"
| "re_resolve m f (Inl ImportError) =
     Inr (ExceptionObject (ViewDoesNotExist (redirect_no_module_message m f)))"
| "re_resolve m f (Inl e) = Inl e"

text \<open>
  One pass of the \<^verbatim>\<open>while True\<close> loop either ends \<^verbatim>\<open>route_request\<close> (with a value
  or an exception) or goes round again with the request as the handler of
  \<^verbatim>\<open>InternalRedirectException\<close> left it.
\<close>

datatype step = Again dispatch world | Finished "exn + pyval" world

text \<open>Lines 75 to 90: the handler of \<^verbatim>\<open>InternalRedirectException\<close>.\<close>

definition internal_redirect :: "env \<Rightarrow> dispatch \<Rightarrow> string \<Rightarrow> string \<Rightarrow> world \<Rightarrow> step" where
  "internal_redirect env d m f w =
     (let w1 = (if SIGNALS env
                then w\<lparr>sent := sent w @ [dmp_signal_internal_redirect_exception]\<rparr> else w)
      in case (if SIGNALS env
               then send (internal_redirect_receivers env)
                      (request.truncate d, InternalRedirectException m f)
               else Inr []) of
           Inl e \<Rightarrow> Finished (Inl e) w1
         | Inr rets \<Rightarrow>
             (case re_resolve m f (import_module env m) of
                Inl e \<Rightarrow> Finished (Inl e) w1
              | Inr cb \<Rightarrow>
                  Again
                    (d\<lparr>dmp_router_module := m, dmp_router_function := f,
                       dmp_router_callback := Some cb\<rparr>)
                    (log_to w1
                       (Log INFO (''received an InternalViewRedirect to '' @ m @ '' -> '' @ f)))))"

text \<open>Lines 92 to 99: the handler of \<^verbatim>\<open>RedirectException\<close>.\<close>

definition redirect :: "env \<Rightarrow> dispatch \<Rightarrow> string \<Rightarrow> world \<Rightarrow> (exn + pyval) \<times> world" where
  "redirect env d redirect_to w =
     (case (if dmp_router_class d = None
            then (case dmp_router_callback d of
                    None \<Rightarrow> Inl (AttributeError ''message'')
                  | Some cb \<Rightarrow>
                      (case message cb (request.truncate d) of
                         Inl e \<Rightarrow> Inl e
                       | Inr m \<Rightarrow>
                           Inr (log_to w
                                  (Log ERROR (m @ '' redirected processing to '' @ redirect_to @ ''.'')))))
            else Inr w) of
        Inl e \<Rightarrow> (Inl e, w)
      | Inr w1 \<Rightarrow>
          (let w2 = (if SIGNALS env
                     then w1\<lparr>sent := sent w1 @ [dmp_signal_redirect_exception]\<rparr> else w1)
           in case (if SIGNALS env
                    then send (redirect_receivers env)
                           (request.truncate d, RedirectException redirect_to)
                    else Inr []) of
                Inl e \<Rightarrow> (Inl e, w2)
              | Inr rets \<Rightarrow>
                  (case redirect_response env redirect_to (request.truncate d) of
                     Inl e \<Rightarrow> (Inl e, w2)
                   | Inr r \<Rightarrow> (Inr (PyResponse r), w2))))"

text \<open>The two \<^verbatim>\<open>except\<close> clauses; any other exception leaves \<^verbatim>\<open>route_request\<close>.\<close>

fun except_redirects :: "env \<Rightarrow> dispatch \<Rightarrow> (exn + pyval) \<times> world \<Rightarrow> step" where
  "except_redirects env d (Inl (InternalRedirectException m f), w) = internal_redirect env d m f w"
| "except_redirects env d (Inl (RedirectException redirect_to), w) =
     (case redirect env d redirect_to w of (r, w') \<Rightarrow> Finished r w')"
| "except_redirects env d (r, w) = Finished r w"

definition route_step :: "env \<Rightarrow> dispatch \<Rightarrow> kwargs \<Rightarrow> world \<Rightarrow> step" where
  "route_step env d kw w = except_redirects env d (route_attempt env d kw w)"

text \<open>
  \<^verbatim>\<open>route_request\<close> (lines 25 to 102). The loop has no bound: where it never ends the
  value is \<open>None\<close>.
\<close>

partial_function (option) route_request ::
  "env \<Rightarrow> dispatch \<Rightarrow> kwargs \<Rightarrow> world \<Rightarrow> ((exn + pyval) \<times> world) option" where
  "route_request env d kw w =
     (case route_step env d kw w of
        Again d' w' \<Rightarrow> route_request env d' kw w'
      | Finished r w' \<Rightarrow> Some (r, w'))"

section \<open>The argument choice as the specification words it\<close>

text \<open>
  The spec's words for the value of a declared parameter: the corresponding positional
  URL value if provided, else a same-named value from extraKwargs, else the declared
  default; the value is run through the converter and the results are collected after
  the request object.
\<close>

definition claimed_value :: "request \<Rightarrow> kwargs \<Rightarrow> nat \<Rightarrow> ViewParameter \<Rightarrow> pyval" where
  "claimed_value req kw i p =
     (if i < length (url_items (urlparams req)) then PyStr (url_items (urlparams req) ! i)
      else (case map_of kw (vp_name p) of Some v \<Rightarrow> v | None \<Rightarrow> vp_default p))"

fun claimed_conversions ::
  "env \<Rightarrow> ConversionTask \<Rightarrow> request \<Rightarrow> kwargs \<Rightarrow> nat \<Rightarrow> ViewParameter list \<Rightarrow> exn + pyval list" where
  "claimed_conversions env ctask req kw i [] = Inr []"
| "claimed_conversions env ctask req kw i (p # ps) =
     (case convert env ctask p (claimed_value req kw i p) of
        Inl e \<Rightarrow> Inl e
      | Inr v \<Rightarrow>
          (case claimed_conversions env ctask req kw (Suc i) ps of
             Inl e \<Rightarrow> Inl e
           | Inr vs \<Rightarrow> Inr (v # vs)))"

definition claimed_args ::
  "env \<Rightarrow> view_function_router \<Rightarrow> request \<Rightarrow> kwargs \<Rightarrow> exn + pyval list" where
  "claimed_args env rt req kw =
     (case claimed_conversions env (conversion_task rt req) req kw 0 (rt_parameters rt) of
        Inl e \<Rightarrow> Inl e
      | Inr vs \<Rightarrow> Inr (PyRequest req # vs))"

section \<open>A small site\<close>

text \<open>
  Concrete inputs for the examples below: an app \<^verbatim>\<open>homepage\<close> with a view module
  \<^verbatim>\<open>homepage.views.index\<close> that holds a decorated view function, an undecorated
  function and a class-based view; a converter that gives the declared default for the
  empty string.
\<close>

definition default_converter :: converter where
  "default_converter v p ctask =
     (if v = PyStr [] \<and> vp_default p \<noteq> PyEmpty then Inr (vp_default p) else Inr v)"

definition text_of :: "pyval \<Rightarrow> string" where
  "text_of v = (case v of PyStr s \<Rightarrow> s | _ \<Rightarrow> [])"

definition process_request :: pyfunc where
  "process_request =
     \<lparr>fn_name = ''process_request'',
      fn_marker = Some [],
      fn_signature = Inr [(''request'', PyEmpty), (''a'', PyEmpty), (''b'', PyStr ''7'')],
      fn_annotations = [(''a'', PyObject ''str'')],
      fn_view_parameter = (\<lambda>vp. vp),
      fn_call = (\<lambda>args kw. Inr (PyResponse (HttpResponse (concat (map text_of args)))))\<rparr>"

text \<open>
  \<^verbatim>\<open>helper\<close> is not decorated; \<^verbatim>\<open>plain\<close> returns a string; \<^verbatim>\<open>forward\<close> raises an
  internal redirect to \<^verbatim>\<open>homepage.views.index.process_request\<close>; \<^verbatim>\<open>ItemView\<close> is a
  class-based view with the methods \<^verbatim>\<open>get\<close> and \<^verbatim>\<open>post\<close>.
\<close>

definition helper :: pyfunc where
  "helper =
     \<lparr>fn_name = ''helper'',
      fn_marker = None,
      fn_signature = Inr [(''request'', PyEmpty)],
      fn_annotations = [],
      fn_view_parameter = (\<lambda>vp. vp),
      fn_call = (\<lambda>args kw. Inr PyNone)\<rparr>"

definition plain :: pyfunc where
  "plain =
     \<lparr>fn_name = ''plain'',
      fn_marker = Some [],
      fn_signature = Inr [(''request'', PyEmpty)],
      fn_annotations = [],
      fn_view_parameter = (\<lambda>vp. vp),
      fn_call = (\<lambda>args kw. Inr (PyStr ''hello''))\<rparr>"

definition forward :: pyfunc where
  "forward =
     \<lparr>fn_name = ''forward'',
      fn_marker = Some [],
      fn_signature = Inr [(''request'', PyEmpty)],
      fn_annotations = [],
      fn_view_parameter = (\<lambda>vp. vp),
      fn_call =
        (\<lambda>args kw. Inl (InternalRedirectException ''homepage.views.index'' ''process_request''))\<rparr>"

definition item_get :: pyfunc where
  "item_get =
     \<lparr>fn_name = ''ItemView.get'',
      fn_marker = None,
      fn_signature = Inr [(''request'', PyEmpty)],
      fn_annotations = [],
      fn_view_parameter = (\<lambda>vp. vp),
      fn_call = (\<lambda>args kw. Inr (PyResponse (HttpResponse ''item'')))\<rparr>"

definition item_post :: pyfunc where
  "item_post =
     \<lparr>fn_name = ''ItemView.post'',
      fn_marker = None,
      fn_signature = Inr [(''request'', PyEmpty)],
      fn_annotations = [],
      fn_view_parameter = (\<lambda>vp. vp),
      fn_call = (\<lambda>args kw. Inr (PyResponse (HttpResponse ''saved'')))\<rparr>"

text \<open>
  \<^verbatim>\<open>django.views.generic.View\<close>: its \<^verbatim>\<open>http_method_names\<close>, and the method
  \<^verbatim>\<open>options(self, request, *args, **kwargs)\<close> that it defines and every subclass
  inherits. An instance made by calling a subclass (\<^verbatim>\<open>func()\<close>, line 143) has the
  methods of the class body and, unless the body defines its own, that \<^verbatim>\<open>options\<close>.
\<close>

definition View_http_method_names :: "string list" where
  "View_http_method_names =
     [''get'', ''post'', ''put'', ''patch'', ''delete'', ''head'', ''options'', ''trace'']"

definition View_options :: pyfunc where
  "View_options =
     \<lparr>fn_name = ''View.options'',
      fn_marker = None,
      fn_signature = Inr [(''request'', PyEmpty), (''args'', PyEmpty), (''kwargs'', PyEmpty)],
      fn_annotations = [],
      fn_view_parameter = (\<lambda>vp. vp),
      fn_call = (\<lambda>args kw. Inr (PyResponse (HttpResponse [])))\<rparr>"

definition View_subclass_instance :: "string \<Rightarrow> (string \<times> pyfunc) list \<Rightarrow> view_instance" where
  "View_subclass_instance qualname body =
     \<lparr>inst_qualname = qualname,
      http_method_names = View_http_method_names,
      inst_attrs = body @ [(''options'', View_options)]\<rparr>"

definition item_view :: view_instance where
  "item_view = View_subclass_instance ''ItemView'' [(''get'', item_get), (''post'', item_post)]"

definition index_module :: pymodule where
  "index_module =
     \<lparr>mod_name = ''homepage.views.index'',
      mod_attrs =
        [(''process_request'', PyFunction process_request),
         (''helper'', PyFunction helper),
         (''plain'', PyFunction plain),
         (''forward'', PyFunction forward),
         (''ItemView'', PyViewClass \<lparr>cls_marker = None, cls_new = Inr item_view\<rparr>)]\<rparr>"

definition index_router :: view_function_router where
  "index_router =
     \<lparr>rt_module = index_module, rt_function = process_request, rt_decorator_kwargs = Some [],
      rt_parameters =
        [\<lparr>vp_name = ''a'', vp_type = PyObject ''str'', vp_default = PyEmpty, vp_converter = None\<rparr>,
         \<lparr>vp_name = ''b'', vp_type = PyEmpty, vp_default = PyStr ''7'', vp_converter = None\<rparr>]\<rparr>"

definition site :: env where
  "site =
     \<lparr>find_spec = (\<lambda>m. Inr (m = ''homepage.views.index'')),
      import_module =
        (\<lambda>m. if m = ''homepage.views.index'' then Inr index_module else Inl ImportError),
      get_template = (\<lambda>a t. Inl (TemplateDoesNotExist t)),
      ctask_converter = default_converter,
      redirect_response = (\<lambda>u req. Inr (HttpResponseRedirect u)),
      SIGNALS = True,
      info_enabled = False,
      pre_receivers = [],
      post_receivers = [],
      internal_redirect_receivers = [],
      redirect_receivers = []\<rparr>"

definition item_endpoints :: "(string \<times> view_function_router) list" where
  "item_endpoints =
     [(''get'', \<lparr>rt_module = index_module, rt_function = item_get,
                  rt_decorator_kwargs = None, rt_parameters = []\<rparr>),
      (''post'', \<lparr>rt_module = index_module, rt_function = item_post,
                   rt_decorator_kwargs = None, rt_parameters = []\<rparr>),
      (''options'', \<lparr>rt_module = index_module, rt_function = View_options,
                      rt_decorator_kwargs = None,
                      rt_parameters =
                        [\<lparr>vp_name = ''args'', vp_type = PyEmpty, vp_default = PyEmpty,
                          vp_converter = None\<rparr>,
                         \<lparr>vp_name = ''kwargs'', vp_type = PyEmpty, vp_default = PyEmpty,
                          vp_converter = None\<rparr>]\<rparr>)]"

text \<open>
  \<^verbatim>\<open>detail(request, a, b, c='7', e='5')\<close>, decorated, with converters of their own for
  \<^verbatim>\<open>b\<close> (which puts an exclamation mark after the text) and \<^verbatim>\<open>c\<close> (which keeps the
  value as it is), and the router built from it.
\<close>

definition exclaim :: converter where
  "exclaim v p ctask = Inr (PyStr (text_of v @ ''!''))"

definition keep :: converter where
  "keep v p ctask = Inr v"

definition detail :: pyfunc where
  "detail =
     \<lparr>fn_name = ''detail'',
      fn_marker = Some [],
      fn_signature =
        Inr [(''request'', PyEmpty), (''a'', PyEmpty), (''b'', PyEmpty), (''c'', PyStr ''7''),
             (''e'', PyStr ''5'')],
      fn_annotations = [],
      fn_view_parameter =
        (\<lambda>vp. if vp_name vp = ''b'' then vp\<lparr>vp_converter := Some exclaim\<rparr>
              else if vp_name vp = ''c'' then vp\<lparr>vp_converter := Some keep\<rparr> else vp),
      fn_call = (\<lambda>args kw. Inr (PyResponse (HttpResponse (concat (map text_of args)))))\<rparr>"

definition detail_router :: view_function_router where
  "detail_router =
     \<lparr>rt_module = index_module, rt_function = detail, rt_decorator_kwargs = Some [],
      rt_parameters =
        [\<lparr>vp_name = ''a'', vp_type = PyEmpty, vp_default = PyEmpty, vp_converter = None\<rparr>,
         \<lparr>vp_name = ''b'', vp_type = PyEmpty, vp_default = PyEmpty, vp_converter = Some exclaim\<rparr>,
         \<lparr>vp_name = ''c'', vp_type = PyEmpty, vp_default = PyStr ''7'', vp_converter = Some keep\<rparr>,
         \<lparr>vp_name = ''e'', vp_type = PyEmpty, vp_default = PyStr ''5'', vp_converter = None\<rparr>]\<rparr>"

text \<open>Nothing logged and no signal sent yet.\<close>

definition fresh :: world where
  "fresh = \<lparr>logged = [], sent = []\<rparr>"

text \<open>
  \<^verbatim>\<open>astray\<close> raises an internal redirect to a module that cannot be imported. The
  routers of \<^verbatim>\<open>plain\<close>, \<^verbatim>\<open>forward\<close> and \<^verbatim>\<open>astray\<close>, and a request on its way to a
  callback.
\<close>

definition astray :: pyfunc where
  "astray =
     \<lparr>fn_name = ''astray'',
      fn_marker = Some [],
      fn_signature = Inr [(''request'', PyEmpty)],
      fn_annotations = [],
      fn_view_parameter = (\<lambda>vp. vp),
      fn_call =
        (\<lambda>args kw. Inl (InternalRedirectException ''homepage.views.gone'' ''process_request''))\<rparr>"

definition router_for :: "pyfunc \<Rightarrow> callback" where
  "router_for func =
     ViewFunctionRouter
       \<lparr>rt_module = index_module, rt_function = func, rt_decorator_kwargs = Some [],
        rt_parameters = []\<rparr>"

definition dispatching :: "callback \<Rightarrow> string \<Rightarrow> dispatch" where
  "dispatching cb function_name =
     \<lparr>req_method = ''GET'', req_path = ''/homepage/index'',
      urlparams = \<lparr>url_items = [], url_beyond = Inr []\<rparr>,
      dmp_router_app = ''homepage'', dmp_router_page = ''index'',
      dmp_router_module = ''homepage.views.index'',
      dmp_router_function = function_name,
      dmp_router_class = None,
      dmp_router_callback = Some cb\<rparr>"



text \<open>The same site with a receiver of the internal-redirect signal that raises.\<close>

definition guarded_site :: env where
  "guarded_site =
     site\<lparr>internal_redirect_receivers := [\<lambda>a. Inl (OtherException ''PermissionDenied'')]\<rparr>"

text \<open>The same site when the view module is there but its import fails.\<close>

definition broken_site :: env where
  "broken_site = site\<lparr>import_module := (\<lambda>m. Inl (OtherException ''SyntaxError''))\<rparr>"

definition index_request :: "string list \<Rightarrow> request" where
  "index_request segments =
     \<lparr>req_method = ''GET'', req_path = ''/homepage/index'',
      urlparams = \<lparr>url_items = segments, url_beyond = Inr []\<rparr>,
      dmp_router_app = ''homepage'', dmp_router_page = ''index'',
      dmp_router_module = ''homepage.views.index'',
      dmp_router_function = ''process_request'',
      dmp_router_class = None\<rparr>"

section \<open>Basic facts\<close>

lemma parameter_truncate [simp]:
  "vp_name (parameter.truncate p) = vp_name p"
  "vp_type (parameter.truncate p) = vp_type p"
  "vp_default (parameter.truncate p) = vp_default p"
  by (simp_all add: parameter.defs)

lemma request_truncate [simp]:
  "req_method (request.truncate d) = req_method d"
  "req_path (request.truncate d) = req_path d"
  "urlparams (request.truncate d) = urlparams d"
  "dmp_router_app (request.truncate d) = dmp_router_app d"
  "dmp_router_page (request.truncate d) = dmp_router_page d"
  "dmp_router_module (request.truncate d) = dmp_router_module d"
  "dmp_router_function (request.truncate d) = dmp_router_function d"
  "dmp_router_class (request.truncate d) = dmp_router_class d"
  by (simp_all add: request.defs)

lemma snd_pop: "snd (pop kw k d) = filter (\<lambda>kv. fst kv \<noteq> k) kw"
proof (cases "map_of kw k")
  case None
  then have "\<forall>kv\<in>set kw. fst kv \<noteq> k"
    by (auto simp: map_of_eq_None_iff)
  then have "filter (\<lambda>kv. fst kv \<noteq> k) kw = kw"
    by (simp add: filter_id_conv)
  with None show ?thesis by (simp add: pop_def)
next
  case (Some v)
  then show ?thesis by (simp add: pop_def)
qed

lemma fst_pop: "fst (pop kw k d) = (case map_of kw k of Some v \<Rightarrow> v | None \<Rightarrow> d)"
  by (simp add: pop_def split: option.splits)

lemma map_of_filter_other:
  "k' \<noteq> k \<Longrightarrow> map_of (filter (\<lambda>kv. fst kv \<noteq> k) kw) k' = map_of kw k'"
  by (induction kw) auto

lemma convert_parameters_kwargs:
  "convert_parameters env ctask req i ps acc kw = Inr (args, kw') \<Longrightarrow>
   kw' = filter (\<lambda>kv. fst kv \<notin> vp_name ` set ps) kw"
proof (induction ps arbitrary: i acc kw)
  case Nil
  then show ?case by simp
next
  case (Cons p ps)
  from Cons.prems obtain d v where
    rest: "convert_parameters env ctask req (Suc i) ps (acc @ [v]) (snd (pop kw (vp_name p) d)) = Inr (args, kw')"
    by (auto split: sum.splits)
  from Cons.IH [OF rest] show ?case
    by (simp add: snd_pop conj_commute)
qed

lemma convert_parameters_Cons_iff:
  "convert_parameters env ctask req i (p # ps) acc kw = Inr r \<longleftrightarrow>
     (\<exists>d v. urlparams_getitem (urlparams req) i = Inr d \<and>
        convert env ctask p (case map_of kw (vp_name p) of Some v \<Rightarrow> v | None \<Rightarrow> d) = Inr v \<and>
        convert_parameters env ctask req (Suc i) ps (acc @ [v])
          (filter (\<lambda>kv. fst kv \<noteq> vp_name p) kw) = Inr r)"
  by (auto simp: snd_pop fst_pop split: sum.splits)

lemma filter_filter_names:
  "filter (\<lambda>kv. fst kv \<notin> vp_name ` set ps) (filter (\<lambda>kv. fst kv \<noteq> vp_name p) kw) =
   filter (\<lambda>kv. fst kv \<notin> vp_name ` set (p # ps)) kw"
  by (induction kw) auto

lemma convert_parameters_args:
  assumes "distinct (map vp_name ps)"
  shows "convert_parameters env ctask req i ps acc kw = Inr (args, kw') \<longleftrightarrow>
    (\<exists>vs. args = acc @ vs \<and> length vs = length ps \<and>
       (\<forall>j<length ps. \<exists>d. urlparams_getitem (urlparams req) (i + j) = Inr d \<and>
          convert env ctask (ps ! j)
            (case map_of kw (vp_name (ps ! j)) of Some v \<Rightarrow> v | None \<Rightarrow> d) = Inr (vs ! j)) \<and>
       kw' = filter (\<lambda>kv. fst kv \<notin> vp_name ` set ps) kw)"
  using assms
proof (induction ps arbitrary: i acc kw)
  case Nil
  then show ?case by auto
next
  case (Cons p ps)
  let ?k = "vp_name p"
  let ?kw1 = "filter (\<lambda>kv. fst kv \<noteq> ?k) kw"
  from Cons.prems have dist: "distinct (map vp_name ps)" and fresh: "?k \<notin> vp_name ` set ps"
    by auto
  have same: "map_of ?kw1 (vp_name (ps ! j)) = map_of kw (vp_name (ps ! j))" if "j < length ps" for j
  proof -
    from that have "vp_name (ps ! j) \<in> vp_name ` set ps" by simp
    with fresh have "vp_name (ps ! j) \<noteq> ?k" by metis
    then show ?thesis by (rule map_of_filter_other)
  qed
  note IH = Cons.IH [OF dist, of "Suc i" _ ?kw1]
  show ?case
  proof
    assume "convert_parameters env ctask req i (p # ps) acc kw = Inr (args, kw')"
    then obtain d v where
      d: "urlparams_getitem (urlparams req) i = Inr d" and
      v: "convert env ctask p (case map_of kw ?k of Some v \<Rightarrow> v | None \<Rightarrow> d) = Inr v" and
      rest: "convert_parameters env ctask req (Suc i) ps (acc @ [v]) ?kw1 = Inr (args, kw')"
      unfolding convert_parameters_Cons_iff by blast
    from rest obtain vs where
      args: "args = (acc @ [v]) @ vs" and len: "length vs = length ps" and
      each: "\<forall>j<length ps. \<exists>d. urlparams_getitem (urlparams req) (Suc i + j) = Inr d \<and>
          convert env ctask (ps ! j)
            (case map_of ?kw1 (vp_name (ps ! j)) of Some v \<Rightarrow> v | None \<Rightarrow> d) = Inr (vs ! j)" and
      kw': "kw' = filter (\<lambda>kv. fst kv \<notin> vp_name ` set ps) ?kw1"
      unfolding IH by blast
    have "\<exists>d. urlparams_getitem (urlparams req) (i + j) = Inr d \<and>
          convert env ctask ((p # ps) ! j)
            (case map_of kw (vp_name ((p # ps) ! j)) of Some v \<Rightarrow> v | None \<Rightarrow> d) = Inr ((v # vs) ! j)"
      if "j < length (p # ps)" for j
    proof (cases j)
      case 0
      with d v show ?thesis by simp
    next
      case (Suc j')
      with that have lt: "j' < length ps" by simp
      from each [rule_format, OF lt] same [OF lt] Suc show ?thesis by simp
    qed
    moreover have "args = acc @ (v # vs)" using args by simp
    moreover have "length (v # vs) = length (p # ps)" using len by simp
    moreover have "kw' = filter (\<lambda>kv. fst kv \<notin> vp_name ` set (p # ps)) kw"
      using kw' by (simp only: filter_filter_names)
    ultimately show "\<exists>vs. args = acc @ vs \<and> length vs = length (p # ps) \<and>
       (\<forall>j<length (p # ps). \<exists>d. urlparams_getitem (urlparams req) (i + j) = Inr d \<and>
          convert env ctask ((p # ps) ! j)
            (case map_of kw (vp_name ((p # ps) ! j)) of Some v \<Rightarrow> v | None \<Rightarrow> d) = Inr (vs ! j)) \<and>
       kw' = filter (\<lambda>kv. fst kv \<notin> vp_name ` set (p # ps)) kw"
      by blast
  next
    assume "\<exists>vs. args = acc @ vs \<and> length vs = length (p # ps) \<and>
       (\<forall>j<length (p # ps). \<exists>d. urlparams_getitem (urlparams req) (i + j) = Inr d \<and>
          convert env ctask ((p # ps) ! j)
            (case map_of kw (vp_name ((p # ps) ! j)) of Some v \<Rightarrow> v | None \<Rightarrow> d) = Inr (vs ! j)) \<and>
       kw' = filter (\<lambda>kv. fst kv \<notin> vp_name ` set (p # ps)) kw"
    then obtain vs0 where
      args: "args = acc @ vs0" and len: "length vs0 = length (p # ps)" and
      each: "\<And>j. j < length (p # ps) \<Longrightarrow> \<exists>d. urlparams_getitem (urlparams req) (i + j) = Inr d \<and>
          convert env ctask ((p # ps) ! j)
            (case map_of kw (vp_name ((p # ps) ! j)) of Some v \<Rightarrow> v | None \<Rightarrow> d) = Inr (vs0 ! j)" and
      kw': "kw' = filter (\<lambda>kv. fst kv \<notin> vp_name ` set (p # ps)) kw"
      by blast
    from len obtain v vs where vs0: "vs0 = v # vs" and len': "length vs = length ps"
      by (auto simp: length_Suc_conv)
    from each [of 0] vs0 obtain d where
      d: "urlparams_getitem (urlparams req) i = Inr d" and
      v: "convert env ctask p (case map_of kw ?k of Some v \<Rightarrow> v | None \<Rightarrow> d) = Inr v"
      by auto
    have "\<exists>d. urlparams_getitem (urlparams req) (Suc i + j) = Inr d \<and>
          convert env ctask (ps ! j)
            (case map_of ?kw1 (vp_name (ps ! j)) of Some v \<Rightarrow> v | None \<Rightarrow> d) = Inr (vs ! j)"
      if "j < length ps" for j
      using each [of "Suc j"] that vs0 same [of j] by simp
    moreover have "args = (acc @ [v]) @ vs" using args vs0 by simp
    moreover have "kw' = filter (\<lambda>kv. fst kv \<notin> vp_name ` set ps) ?kw1"
      using kw' by (simp only: filter_filter_names)
    ultimately have "convert_parameters env ctask req (Suc i) ps (acc @ [v]) ?kw1 = Inr (args, kw')"
      unfolding IH using len' by blast
    with d v show "convert_parameters env ctask req i (p # ps) acc kw = Inr (args, kw')"
      unfolding convert_parameters_Cons_iff by blast
  qed
qed

section \<open>The arguments of the handler call\<close>

lemma urlparams_getitem_Inr:
  "urlparams_getitem ps j = Inr d \<longleftrightarrow>
     (\<exists>s. (if j < length (url_items ps) then Inr (url_items ps ! j) else url_beyond ps) = Inr s \<and>
          d = PyStr s)"
  by (auto simp: urlparams_getitem_def split: sum.splits)

lemma converted_value_iff:
  "(\<exists>d. urlparams_getitem ps j = Inr d \<and>
        convert env ctask p (case map_of kw n of Some v \<Rightarrow> v | None \<Rightarrow> d) = Inr r) \<longleftrightarrow>
   (\<exists>s. (if j < length (url_items ps) then Inr (url_items ps ! j) else url_beyond ps) = Inr s \<and>
      (case vp_converter p of
         Some own \<Rightarrow>
           own (case map_of kw n of Some v \<Rightarrow> v | None \<Rightarrow> PyStr s)
             (parameter.truncate p) ctask
       | None \<Rightarrow>
           ctask_converter env (case map_of kw n of Some v \<Rightarrow> v | None \<Rightarrow> PyStr s)
             (parameter.truncate p) ctask)
        = Inr r)"
  unfolding urlparams_getitem_Inr convert_def by blast

text \<open>
  C1, as amended. For a router whose parameter names are distinct (as the names of a
  Python signature are) and a request with no more URL values than declared parameters,
  \<^verbatim>\<open>ViewFunctionRouter.get_response\<close> reaches the handler call with the arguments
  \<open>args\<close> exactly when \<open>args\<close> is the request object followed by one value for each
  declared parameter in order. The \<open>j\<close>-th value is the result of one converter call:
  of the parameter's own converter if it has one, of the task's converter otherwise. The
  converter is called on the same-named value of the extra keyword arguments if there is
  one, and otherwise on what \<^verbatim>\<open>request.urlparams[j]\<close> gives: the URL value supplied at
  that position, or beyond the supplied values whatever the URL parameter list answers
  there. \<^verbatim>\<open>get_response\<close> never puts the declared default in itself; the converter is
  handed the parameter, which carries it.
\<close>

theorem get_response_call_arguments:
  assumes "distinct (map vp_name (rt_parameters rt))"
    and "length (url_items (urlparams req)) \<le> length (rt_parameters rt)"
  shows "get_response_call env rt req kw = Inr (args, kw') \<longleftrightarrow>
    (\<exists>vs. args = PyRequest req # vs \<and> length vs = length (rt_parameters rt) \<and>
       (\<forall>j<length (rt_parameters rt).
          \<exists>s. (if j < length (url_items (urlparams req))
                then Inr (url_items (urlparams req) ! j)
                else url_beyond (urlparams req)) = Inr s \<and>
            (case vp_converter (rt_parameters rt ! j) of
               Some own \<Rightarrow>
                 own (case map_of kw (vp_name (rt_parameters rt ! j)) of
                        Some v \<Rightarrow> v | None \<Rightarrow> PyStr s)
                   (parameter.truncate (rt_parameters rt ! j)) (conversion_task rt req)
             | None \<Rightarrow>
                 ctask_converter env
                   (case map_of kw (vp_name (rt_parameters rt ! j)) of
                      Some v \<Rightarrow> v | None \<Rightarrow> PyStr s)
                   (parameter.truncate (rt_parameters rt ! j)) (conversion_task rt req))
              = Inr (vs ! j)) \<and>
       kw' = filter (\<lambda>kv. fst kv \<notin> vp_name ` set (rt_parameters rt)) kw)"
proof -
  from assms(2) have "check_length (urlparams req) (length (rt_parameters rt)) = Inr ()"
    by (simp add: check_length_def)
  then have "get_response_call env rt req kw =
      convert_parameters env (conversion_task rt req) req 0 (rt_parameters rt) [PyRequest req] kw"
    by (simp add: get_response_call_def)
  then have "get_response_call env rt req kw = Inr (args, kw') \<longleftrightarrow>
    (\<exists>vs. args = PyRequest req # vs \<and> length vs = length (rt_parameters rt) \<and>
       (\<forall>j<length (rt_parameters rt).
          \<exists>d. urlparams_getitem (urlparams req) j = Inr d \<and>
            convert env (conversion_task rt req) (rt_parameters rt ! j)
              (case map_of kw (vp_name (rt_parameters rt ! j)) of Some v \<Rightarrow> v | None \<Rightarrow> d)
              = Inr (vs ! j)) \<and>
       kw' = filter (\<lambda>kv. fst kv \<notin> vp_name ` set (rt_parameters rt)) kw)"
    by (simp add: convert_parameters_args [OF assms(1)])
  then show ?thesis
    by (simp only: converted_value_iff)
qed

theorem get_response_call_arguments_witness:
  "ViewFunctionRouter_init index_module detail (Some []) = Inr detail_router \<and>
   distinct (map vp_name (rt_parameters detail_router)) \<and>
   length (url_items (urlparams (index_request [''x''])))
     \<le> length (rt_parameters detail_router) \<and>
   get_response_call site detail_router (index_request [''x''])
       [(''b'', PyStr ''y''), (''z'', PyInt 3)]
     = Inr ([PyRequest (index_request [''x'']), PyStr ''x'', PyStr ''y!'', PyStr [], PyStr ''5''],
            [(''z'', PyInt 3)]) \<and>
   (\<exists>vs. [PyRequest (index_request [''x'']), PyStr ''x'', PyStr ''y!'', PyStr [], PyStr ''5'']
            = PyRequest (index_request [''x'']) # vs \<and>
      length vs = length (rt_parameters detail_router) \<and>
      [(''z'', PyInt 3)] =
        filter (\<lambda>kv. fst kv \<notin> vp_name ` set (rt_parameters detail_router))
          [(''b'', PyStr ''y''), (''z'', PyInt 3)])"
proof -
  have built: "ViewFunctionRouter_init index_module detail (Some []) = Inr detail_router"
    by (simp add: ViewFunctionRouter_init_def new_parameter_def detail_def detail_router_def)
  have h1: "distinct (map vp_name (rt_parameters detail_router))"
    by (simp add: detail_router_def)
  have h2: "length (url_items (urlparams (index_request [''x''])))
      \<le> length (rt_parameters detail_router)"
    by (simp add: detail_router_def index_request_def)
  have run: "get_response_call site detail_router (index_request [''x''])
       [(''b'', PyStr ''y''), (''z'', PyInt 3)]
     = Inr ([PyRequest (index_request [''x'']), PyStr ''x'', PyStr ''y!'', PyStr [], PyStr ''5''],
            [(''z'', PyInt 3)])"
    by (simp add: get_response_call_def check_length_def detail_router_def index_request_def
        urlparams_getitem_def convert_def site_def default_converter_def pop_def
        conversion_task_def exclaim_def keep_def text_of_def)
  from get_response_call_arguments [OF h1 h2, THEN iffD1, OF run] built h1 h2 run
  show ?thesis by blast
qed

text \<open>
  C1 as stated differs from the code in two places. It gives the positional URL value
  precedence over the same-named keyword argument: with the URL value \<^verbatim>\<open>x\<close> and the
  keyword argument \<^verbatim>\<open>a='y'\<close>, the parameter \<^verbatim>\<open>a\<close> receives \<^verbatim>\<open>y\<close>, not \<^verbatim>\<open>x\<close>. And
  it gives a parameter with neither value its declared default: the parameter \<^verbatim>\<open>c\<close>,
  declared with the default \<^verbatim>\<open>'7'\<close> and a converter that keeps its argument, receives
  the empty string that the URL parameter list answers beyond its values, not \<^verbatim>\<open>'7'\<close>.
\<close>

theorem argument_choice_differs:
  "get_response_call site detail_router (index_request [''x'']) [(''a'', PyStr ''y'')]
     = Inr ([PyRequest (index_request [''x'']), PyStr ''y'', PyStr ''!'', PyStr [], PyStr ''5''], []) \<and>
   claimed_args site detail_router (index_request [''x'']) [(''a'', PyStr ''y'')]
     = Inr [PyRequest (index_request [''x'']), PyStr ''x'', PyStr ''!'', PyStr ''7'', PyStr ''5''] \<and>
   get_response_call site detail_router (index_request [''x'']) []
     = Inr ([PyRequest (index_request [''x'']), PyStr ''x'', PyStr ''!'', PyStr [], PyStr ''5''], []) \<and>
   claimed_args site detail_router (index_request [''x'']) []
     = Inr [PyRequest (index_request [''x'']), PyStr ''x'', PyStr ''!'', PyStr ''7'', PyStr ''5'']"
  by (simp add: get_response_call_def check_length_def detail_router_def index_request_def
      urlparams_getitem_def convert_def site_def default_converter_def pop_def
      conversion_task_def claimed_args_def claimed_value_def exclaim_def keep_def text_of_def)

text \<open>
  C9. When the request carries more positional URL values than the router has declared
  parameters, \<^verbatim>\<open>ViewFunctionRouter.get_response\<close> raises \<^verbatim>\<open>Http404\<close> at the length
  check, before any indexing, conversion or call of the handler.
\<close>

theorem too_many_urlparams_not_found:
  assumes "length (rt_parameters rt) < length (url_items (urlparams req))"
  shows "get_response_call env rt req kw = Inl Http404 \<and>
         ViewFunctionRouter_get_response env rt req kw = Inl Http404"
  using assms
  by (simp add: get_response_call_def ViewFunctionRouter_get_response_def check_length_def)

theorem too_many_urlparams_not_found_witness:
  "length (rt_parameters index_router) < length (url_items (urlparams (index_request [''x'', ''y'', ''z''])))
   \<and> ViewFunctionRouter_get_response site index_router (index_request [''x'', ''y'', ''z'']) []
       = Inl Http404"
proof -
  have h: "length (rt_parameters index_router)
      < length (url_items (urlparams (index_request [''x'', ''y'', ''z''])))"
    by (simp add: index_router_def index_request_def)
  from too_many_urlparams_not_found [OF h] h show ?thesis by blast
qed

text \<open>
  C10. When \<^verbatim>\<open>ViewFunctionRouter.get_response\<close> reaches the handler call, the keyword
  arguments of the call are the extra keyword arguments without every entry whose key is
  the name of a declared parameter: no name of a declared parameter is left among them.
\<close>

theorem handler_kwargs_exclude_parameters:
  assumes "get_response_call env rt req kw = Inr (args, kw')"
  shows "ViewFunctionRouter_get_response env rt req kw = fn_call (rt_function rt) args kw' \<and>
         kw' = filter (\<lambda>kv. fst kv \<notin> vp_name ` set (rt_parameters rt)) kw \<and>
         fst ` set kw' \<inter> vp_name ` set (rt_parameters rt) = {}"
proof -
  from assms have conv: "convert_parameters env (conversion_task rt req) req 0 (rt_parameters rt)
      [PyRequest req] kw = Inr (args, kw')"
    by (simp add: get_response_call_def split: sum.splits)
  have kw': "kw' = filter (\<lambda>kv. fst kv \<notin> vp_name ` set (rt_parameters rt)) kw"
    by (rule convert_parameters_kwargs [OF conv])
  then have "fst ` set kw' \<inter> vp_name ` set (rt_parameters rt) = {}"
    by auto
  with assms kw' show ?thesis
    by (simp add: ViewFunctionRouter_get_response_def)
qed

theorem handler_kwargs_exclude_parameters_witness:
  "get_response_call site index_router (index_request [''x''])
       [(''z'', PyInt 3), (''b'', PyStr ''y'')]
     = Inr ([PyRequest (index_request [''x'']), PyStr ''x'', PyStr ''y''], [(''z'', PyInt 3)]) \<and>
   ViewFunctionRouter_get_response site index_router (index_request [''x''])
       [(''z'', PyInt 3), (''b'', PyStr ''y'')]
     = fn_call (rt_function index_router)
         [PyRequest (index_request [''x'']), PyStr ''x'', PyStr ''y''] [(''z'', PyInt 3)] \<and>
   fst ` set [(''z'', PyInt 3)] \<inter> vp_name ` set (rt_parameters index_router) = {}"
proof -
  have run: "get_response_call site index_router (index_request [''x''])
       [(''z'', PyInt 3), (''b'', PyStr ''y'')]
     = Inr ([PyRequest (index_request [''x'']), PyStr ''x'', PyStr ''y''], [(''z'', PyInt 3)])"
    by (simp add: get_response_call_def check_length_def index_router_def index_request_def
        urlparams_getitem_def convert_def site_def default_converter_def pop_def
        conversion_task_def)
  from handler_kwargs_exclude_parameters [OF run] run show ?thesis by blast
qed

section \<open>What router\_factory returns and raises\<close>

lemma spec_or_None_Inl: "spec_or_None r = Inl e \<Longrightarrow> r = Inl e \<and> e \<noteq> ValueError"
  by (cases "(r)" rule: spec_or_None.cases) auto

lemma spec_or_None_Inr: "spec_or_None r = Inr b \<longleftrightarrow> r = Inr b \<or> (r = Inl ValueError \<and> \<not> b)"
  by (cases "(r)" rule: spec_or_None.cases) auto

lemma template_or_raise_Inl:
  "template_or_raise m t r = Inl e \<Longrightarrow> r = Inl e \<or> (\<exists>msg. e = ViewDoesNotExist msg)"
  by (cases "(m, t, r)" rule: template_or_raise.cases) auto

lemma except_ViewDoesNotExist_Inl:
  "except_ViewDoesNotExist r = Inl e \<Longrightarrow> r = Inl e \<and> (\<forall>msg. e \<noteq> ViewDoesNotExist msg)"
  by (cases "(r)" rule: except_ViewDoesNotExist.cases) auto

lemma decorator_kwargs_of_get_args:
  "decorator_kwargs_of (view_function_get_args func) = Inr (view_function_marker func)"
  by (simp add: view_function_get_args_def split: option.splits)

lemma ClassBasedRouter_endpoints_Inl:
  "ClassBasedRouter_endpoints md inst dk ns eps = Inl e \<Longrightarrow>
   \<exists>fn\<in>snd ` set (inst_attrs inst). fn_signature fn = Inl e"
proof (induction ns arbitrary: eps)
  case Nil
  then show ?case by simp
next
  case (Cons n ns)
  show ?case
  proof (cases "map_of (inst_attrs inst) n")
    case None
    with Cons show ?thesis by simp
  next
    case (Some func)
    then have mem: "func \<in> snd ` set (inst_attrs inst)"
      by (metis map_of_SomeD image_eqI snd_conv)
    show ?thesis
    proof (cases "ViewFunctionRouter_init md func dk")
      case (Inl e')
      with Cons.prems Some have "e' = e" by simp
      with Inl have "fn_signature func = Inl e"
        by (simp add: ViewFunctionRouter_init_def split: sum.splits)
      with mem show ?thesis by blast
    next
      case (Inr rt)
      with Cons Some show ?thesis by simp
    qed
  qed
qed

lemma router_of_Inl:
  assumes "router_of md m f func dk = Inl e"
  shows "(\<exists>msg. e = ViewDoesNotExist msg) \<or>
     (\<exists>c. func = PyViewClass c \<and>
        (cls_new c = Inl e \<or>
         (\<exists>inst. cls_new c = Inr inst \<and> (\<exists>fn\<in>snd ` set (inst_attrs inst). fn_signature fn = Inl e)))) \<or>
     (\<exists>fn. func = PyFunction fn \<and> fn_signature fn = Inl e)"
proof (cases func)
  case (PyFunction fn)
  with assms show ?thesis
    by (auto simp: ViewFunctionRouter_init_def split: if_splits sum.splits)
next
  case (PyViewClass c)
  with assms show ?thesis
    by (auto simp: ClassBasedRouter_init_def split: sum.splits dest: ClassBasedRouter_endpoints_Inl)
next
  case (PyOther v)
  with assms show ?thesis by auto
qed

lemma router_factory_try_Inl:
  assumes "router_factory_try env a m f t = Inl e"
  shows "(\<exists>msg. e = ViewDoesNotExist msg) \<or>
     find_spec env m = Inl e \<or> get_template env a t = Inl e \<or> import_module env m = Inl e \<or>
     (\<exists>md c. import_module env m = Inr md \<and> map_of (mod_attrs md) f = Some (PyViewClass c) \<and>
        (cls_new c = Inl e \<or>
         (\<exists>inst. cls_new c = Inr inst \<and> (\<exists>fn\<in>snd ` set (inst_attrs inst). fn_signature fn = Inl e)))) \<or>
     (\<exists>md fn. import_module env m = Inr md \<and> map_of (mod_attrs md) f = Some (PyFunction fn) \<and>
        fn_signature fn = Inl e)"
proof (cases "spec_or_None (find_spec env m)")
  case (Inl e')
  with assms have "e' = e" by (simp add: router_factory_try_def)
  with Inl show ?thesis by (auto dest: spec_or_None_Inl)
next
  case (Inr found)
  show ?thesis
  proof (cases found)
    case False
    with Inr assms have "template_or_raise m t (TemplateViewRouter_init env a t) = Inl e"
      by (simp add: router_factory_try_def)
    from template_or_raise_Inl [OF this] show ?thesis
      by (auto simp: TemplateViewRouter_init_def split: sum.splits)
  next
    case True
    show ?thesis
    proof (cases "import_module env m")
      case (Inl e')
      with Inr True assms show ?thesis by (simp add: router_factory_try_def)
    next
      case imp: (Inr md)
      show ?thesis
      proof (cases "map_of (mod_attrs md) f")
        case None
        with Inr True imp assms show ?thesis by (auto simp: router_factory_try_def)
      next
        case (Some func)
        with Inr True imp assms have "router_of md m f func (view_function_marker func) = Inl e"
          by (simp add: router_factory_try_def decorator_kwargs_of_get_args)
        from router_of_Inl [OF this] imp Some show ?thesis by blast
      qed
    qed
  qed
qed

text \<open>The routers of the small site are the ones the factory builds.\<close>

lemma router_factory_builds_examples:
  "router_factory site ''homepage'' ''homepage.views.index'' ''process_request'' ''index.html''
     = Inr (ViewFunctionRouter index_router)"
  "router_factory site ''homepage'' ''homepage.views.index'' ''ItemView'' ''index.html''
     = Inr (ClassBasedRouter item_endpoints)"
  "router_factory site ''homepage'' ''homepage.views.index'' ''plain'' ''index.html''
     = Inr (router_for plain)"
  by (simp_all add: router_factory_def router_factory_try_def site_def index_module_def
      view_function_get_args_def view_function_is_decorated_def ViewFunctionRouter_init_def
      ClassBasedRouter_init_def new_parameter_def process_request_def index_router_def
      item_view_def View_subclass_instance_def View_http_method_names_def View_options_def
      item_endpoints_def item_get_def item_post_def plain_def router_for_def
      helper_def forward_def)

text \<open>
  C2, as amended. \<^verbatim>\<open>router_factory\<close> never raises \<^verbatim>\<open>ViewDoesNotExist\<close>: an exception
  that leaves it is one that a collaborator raised, namely \<^verbatim>\<open>find_spec\<close> (other than
  \<^verbatim>\<open>ValueError\<close>), the template loader (other than \<^verbatim>\<open>TemplateDoesNotExist\<close>),
  \<^verbatim>\<open>import_module\<close>, the constructor of the view class, or \<^verbatim>\<open>inspect.signature\<close>.
  The failures of the lookup path are each folded into a returned
  \<^verbatim>\<open>RegistryExceptionRouter\<close>: no module spec together with a fallback template that
  does not exist, a module without the function, and a function that is neither a view
  class nor decorated.
\<close>

theorem router_factory_folds_lookup_failures:
  "(router_factory env a m f t = Inl e \<longrightarrow>
      (\<forall>msg. e \<noteq> ViewDoesNotExist msg) \<and>
      (find_spec env m = Inl e \<or> get_template env a t = Inl e \<or> import_module env m = Inl e \<or>
       (\<exists>md c. import_module env m = Inr md \<and> map_of (mod_attrs md) f = Some (PyViewClass c) \<and>
          (cls_new c = Inl e \<or>
           (\<exists>inst. cls_new c = Inr inst \<and>
              (\<exists>fn\<in>snd ` set (inst_attrs inst). fn_signature fn = Inl e)))) \<or>
       (\<exists>md fn. import_module env m = Inr md \<and> map_of (mod_attrs md) f = Some (PyFunction fn) \<and>
          fn_signature fn = Inl e))) \<and>
   ((find_spec env m = Inr False \<or> find_spec env m = Inl ValueError) \<and>
      get_template env a t = Inl (TemplateDoesNotExist x) \<longrightarrow>
      router_factory env a m f t =
        Inr (RegistryExceptionRouter (ViewDoesNotExist (no_module_message m t x)))) \<and>
   (find_spec env m = Inr True \<and> import_module env m = Inr md \<and>
      map_of (mod_attrs md) f = None \<longrightarrow>
      router_factory env a m f t =
        Inr (RegistryExceptionRouter (ViewDoesNotExist (no_function_message m f)))) \<and>
   (find_spec env m = Inr True \<and> import_module env m = Inr md \<and>
      map_of (mod_attrs md) f = Some func \<and> (\<forall>c. func \<noteq> PyViewClass c) \<and>
      view_function_marker func = None \<longrightarrow>
      router_factory env a m f t =
        Inr (RegistryExceptionRouter (ViewDoesNotExist (not_decorated_message m f))))"
proof (intro conjI impI)
  assume raised: "router_factory env a m f t = Inl e"
  then have tried: "router_factory_try env a m f t = Inl e"
    and other: "\<forall>msg. e \<noteq> ViewDoesNotExist msg"
    by (auto simp: router_factory_def dest: except_ViewDoesNotExist_Inl)
  from other show "\<forall>msg. e \<noteq> ViewDoesNotExist msg" .
  from router_factory_try_Inl [OF tried] other
  show "find_spec env m = Inl e \<or> get_template env a t = Inl e \<or> import_module env m = Inl e \<or>
       (\<exists>md c. import_module env m = Inr md \<and> map_of (mod_attrs md) f = Some (PyViewClass c) \<and>
          (cls_new c = Inl e \<or>
           (\<exists>inst. cls_new c = Inr inst \<and>
              (\<exists>fn\<in>snd ` set (inst_attrs inst). fn_signature fn = Inl e)))) \<or>
       (\<exists>md fn. import_module env m = Inr md \<and> map_of (mod_attrs md) f = Some (PyFunction fn) \<and>
          fn_signature fn = Inl e)"
    by blast
next
  assume "(find_spec env m = Inr False \<or> find_spec env m = Inl ValueError) \<and>
      get_template env a t = Inl (TemplateDoesNotExist x)"
  then show "router_factory env a m f t =
        Inr (RegistryExceptionRouter (ViewDoesNotExist (no_module_message m t x)))"
    by (auto simp: router_factory_def router_factory_try_def TemplateViewRouter_init_def)
next
  assume "find_spec env m = Inr True \<and> import_module env m = Inr md \<and>
      map_of (mod_attrs md) f = None"
  then show "router_factory env a m f t =
        Inr (RegistryExceptionRouter (ViewDoesNotExist (no_function_message m f)))"
    by (simp add: router_factory_def router_factory_try_def)
next
  assume h: "find_spec env m = Inr True \<and> import_module env m = Inr md \<and>
      map_of (mod_attrs md) f = Some func \<and> (\<forall>c. func \<noteq> PyViewClass c) \<and>
      view_function_marker func = None"
  then have "router_of md m f func None = Inl (ViewDoesNotExist (not_decorated_message m f))"
    by (cases func) (simp_all add: view_function_is_decorated_def)
  with h show "router_factory env a m f t =
        Inr (RegistryExceptionRouter (ViewDoesNotExist (not_decorated_message m f)))"
    by (simp add: router_factory_def router_factory_try_def decorator_kwargs_of_get_args)
qed

theorem router_factory_folds_lookup_failures_witness:
  "router_factory broken_site ''homepage'' ''homepage.views.index'' ''process_request''
       ''index.html'' = Inl (OtherException ''SyntaxError'') \<and>
   import_module broken_site ''homepage.views.index'' = Inl (OtherException ''SyntaxError'') \<and>
   find_spec site ''homepage.views.about'' = Inr False \<and>
   get_template site ''homepage'' ''about.html'' = Inl (TemplateDoesNotExist ''about.html'') \<and>
   router_factory site ''homepage'' ''homepage.views.about'' ''process_request'' ''about.html'' =
     Inr (RegistryExceptionRouter
       (ViewDoesNotExist (no_module_message ''homepage.views.about'' ''about.html'' ''about.html''))) \<and>
   find_spec site ''homepage.views.index'' = Inr True \<and>
   import_module site ''homepage.views.index'' = Inr index_module \<and>
   map_of (mod_attrs index_module) ''missing'' = None \<and>
   router_factory site ''homepage'' ''homepage.views.index'' ''missing'' ''index.html'' =
     Inr (RegistryExceptionRouter
       (ViewDoesNotExist (no_function_message ''homepage.views.index'' ''missing''))) \<and>
   map_of (mod_attrs index_module) ''helper'' = Some (PyFunction helper) \<and>
   view_function_marker (PyFunction helper) = None \<and>
   router_factory site ''homepage'' ''homepage.views.index'' ''helper'' ''index.html'' =
     Inr (RegistryExceptionRouter
       (ViewDoesNotExist (not_decorated_message ''homepage.views.index'' ''helper'')))"
proof -
  have raised: "router_factory broken_site ''homepage'' ''homepage.views.index''
      ''process_request'' ''index.html'' = Inl (OtherException ''SyntaxError'')"
    by (simp add: router_factory_def router_factory_try_def broken_site_def site_def)
  have imp0: "import_module broken_site ''homepage.views.index'' = Inl (OtherException ''SyntaxError'')"
    by (simp add: broken_site_def)
  have spec1: "find_spec site ''homepage.views.about'' = Inr False"
    by (simp add: site_def)
  have tmpl1: "get_template site ''homepage'' ''about.html'' = Inl (TemplateDoesNotExist ''about.html'')"
    by (simp add: site_def)
  have spec2: "find_spec site ''homepage.views.index'' = Inr True"
    by (simp add: site_def)
  have imp2: "import_module site ''homepage.views.index'' = Inr index_module"
    by (simp add: site_def)
  have attr3: "map_of (mod_attrs index_module) ''missing'' = None"
    by (simp add: index_module_def)
  have attr4: "map_of (mod_attrs index_module) ''helper'' = Some (PyFunction helper)"
    by (simp add: index_module_def)
  have mark4: "view_function_marker (PyFunction helper) = None"
    by (simp add: helper_def)
  note thm1 = router_factory_folds_lookup_failures
    [of site "''homepage''" "''homepage.views.about''" "''process_request''" "''about.html''"
        _ "''about.html''"]
  note thm2 = router_factory_folds_lookup_failures
    [of site "''homepage''" "''homepage.views.index''" "''missing''" "''index.html''"
        _ _ index_module]
  note thm3 = router_factory_folds_lookup_failures
    [of site "''homepage''" "''homepage.views.index''" "''helper''" "''index.html''"
        _ _ index_module "PyFunction helper"]
  from thm1 spec1 tmpl1 have r1:
    "router_factory site ''homepage'' ''homepage.views.about'' ''process_request'' ''about.html'' =
     Inr (RegistryExceptionRouter
       (ViewDoesNotExist (no_module_message ''homepage.views.about'' ''about.html'' ''about.html'')))"
    by blast
  from thm2 spec2 imp2 attr3 have r2:
    "router_factory site ''homepage'' ''homepage.views.index'' ''missing'' ''index.html'' =
     Inr (RegistryExceptionRouter
       (ViewDoesNotExist (no_function_message ''homepage.views.index'' ''missing'')))"
    by blast
  from thm3 spec2 imp2 attr4 mark4 have r3:
    "router_factory site ''homepage'' ''homepage.views.index'' ''helper'' ''index.html'' =
     Inr (RegistryExceptionRouter
       (ViewDoesNotExist (not_decorated_message ''homepage.views.index'' ''helper'')))"
    by blast
  from raised imp0 spec1 tmpl1 r1 spec2 imp2 attr3 r2 attr4 mark4 r3 show ?thesis
    by simp
qed

text \<open>
  C2 as stated says that no exception ever reaches the caller. The import of the module
  is outside every \<^verbatim>\<open>try\<close> that would catch its failure (the comment of lines 116 to
  118 says so): when the spec is found and the import fails, the exception propagates.
\<close>

theorem router_factory_raises_on_failed_import:
  "router_factory broken_site ''homepage'' ''homepage.views.index'' ''process_request''
       ''index.html'' = Inl (OtherException ''SyntaxError'')"
  by (simp add: router_factory_def router_factory_try_def broken_site_def site_def)




section \<open>RegistryExceptionRouter\<close>

text \<open>
  C4 says that \<^verbatim>\<open>get_response\<close> of a \<^verbatim>\<open>RegistryExceptionRouter\<close> returns a not-found
  response that carries the message. The code calls \<^verbatim>\<open>HttpResponseNotFound\<close>, a name
  that router.py never imports or defines: for every exception held, every request and
  all keyword arguments the call raises \<^verbatim>\<open>NameError\<close> and returns no response.
\<close>

theorem RegistryExceptionRouter_get_response_raises:
  "RegistryExceptionRouter_get_response exc req kw = Inl (NameError ''HttpResponseNotFound'') \<and>
   get_response env (RegistryExceptionRouter exc) req kw w =
     (Inl (NameError ''HttpResponseNotFound''), w)"
  by (simp add: RegistryExceptionRouter_get_response_def global_name_def router_globals_def)

section \<open>Class-based views\<close>










section \<open>The dispatch loop\<close>

lemma route_request_Finished:
  "route_step env d kw w = Finished r w' \<Longrightarrow> route_request env d kw w = Some (r, w')"
  by (subst route_request.simps) simp

lemma route_request_Again:
  "route_step env d kw w = Again d' w' \<Longrightarrow>
   route_request env d kw w = route_request env d' kw w'"
  by (subst route_request.simps) simp

lemma except_redirects_Inr: "except_redirects env d (Inr v, w) = Finished (Inr v) w"
  by simp

lemma except_redirects_Http404: "except_redirects env d (Inl Http404, w) = Finished (Inl Http404) w"
  by simp

lemma except_redirects_AttributeError:
  "except_redirects env d (Inl (AttributeError a), w) = Finished (Inl (AttributeError a)) w"
  by simp

lemma route_attempt_RegistryExceptionRouter:
  assumes "dmp_router_callback d = Some (RegistryExceptionRouter exc)"
  shows "route_attempt env d kw w =
     (Inl Http404,
      log_to (if info_enabled env
              then log_to w (Log INFO (processing_message (request.truncate d))) else w)
        (Log ERROR (str_exn exc)))"
  using assms by (simp add: route_attempt_def Let_def RegistryExceptionRouter_message_def)

lemma route_attempt_ViewDoesNotExist:
  assumes "dmp_router_callback d = Some (ExceptionObject (ViewDoesNotExist m))"
  shows "route_attempt env d kw w =
     (Inl (AttributeError ''message''),
      if info_enabled env
      then log_to w (Log INFO (processing_message (request.truncate d))) else w)"
  using assms by (simp add: route_attempt_def Let_def)

lemma sent_log_to [simp]: "sent (log_to w e) = sent w"
  by (simp add: log_to_def)

lemma logged_log_to [simp]: "logged (log_to w e) = logged w @ [e]"
  by (simp add: log_to_def)

lemma registry_exception_router_short_circuits:
  assumes "dmp_router_callback d = Some (RegistryExceptionRouter exc)"
  shows "\<exists>w'. route_request env d kw w = Some (Inl Http404, w') \<and>
      sent w' = sent w \<and>
      logged w' =
        logged w
        @ (if info_enabled env then [Log INFO (processing_message (request.truncate d))] else [])
        @ [Log ERROR (str_exn exc)]"
proof -
  let ?w' = "log_to (if info_enabled env
              then log_to w (Log INFO (processing_message (request.truncate d))) else w)
        (Log ERROR (str_exn exc))"
  have "route_step env d kw w = Finished (Inl Http404) ?w'"
    by (simp add: route_step_def route_attempt_RegistryExceptionRouter [OF assms])
  then have "route_request env d kw w = Some (Inl Http404, ?w')"
    by (rule route_request_Finished)
  then show ?thesis by auto
qed











lemma attribute_or_marker_eq:
  "attribute_or_marker m f x =
     (case x of
        None \<Rightarrow> ExceptionObject (ViewDoesNotExist (redirect_no_function_message m f))
      | Some obj \<Rightarrow>
          if obj = PyOther PyNone
          then ExceptionObject (ViewDoesNotExist (redirect_no_function_message m f))
          else ModuleAttribute obj)"
  by (cases "(m, f, x)" rule: attribute_or_marker.cases) simp_all

lemma truncate_callback_update [simp]:
  "request.truncate (d\<lparr>dmp_router_callback := c\<rparr>) = request.truncate d"
  by (simp add: request.defs)

lemma route_attempt_ModuleAttribute:
  assumes "dmp_router_callback d = Some (ModuleAttribute obj)"
    and "send_pre env (request.truncate d)
      (if info_enabled env
       then log_to w (Log INFO (processing_message (request.truncate d))) else w)
      = (Inr None, w1)"
  shows "route_attempt env d kw w =
     (Inl (AttributeError (if info_enabled env then ''message'' else ''get_response'')), w1)"
proof (cases "info_enabled env")
  case True
  with assms show ?thesis by (simp add: route_attempt_def Let_def call_view_def)
next
  case False
  with assms show ?thesis by (simp add: route_attempt_def Let_def call_view_def)
qed

text \<open>
  What line 84 stores after an internal redirect is the attribute of the module as it
  is, not a router: the next pass finds no \<^verbatim>\<open>message\<close> and no \<^verbatim>\<open>get_response\<close> on it
  and, unless a pre-signal receiver answers or raises first, ends \<^verbatim>\<open>route_request\<close>
  with \<^verbatim>\<open>AttributeError\<close>.
\<close>

lemma module_attribute_is_not_a_router:
  assumes "dmp_router_callback d = Some (ModuleAttribute obj)"
    and "send_pre env (request.truncate d)
      (if info_enabled env
       then log_to w (Log INFO (processing_message (request.truncate d))) else w)
      = (Inr None, w1)"
  shows "route_request env d kw w =
     Some (Inl (AttributeError (if info_enabled env then ''message'' else ''get_response'')), w1)"
proof -
  have "route_step env d kw w =
     Finished (Inl (AttributeError (if info_enabled env then ''message'' else ''get_response''))) w1"
    by (simp add: route_step_def route_attempt_ModuleAttribute [OF assms])
  then show ?thesis by (rule route_request_Finished)
qed

text \<open>
  C6, as amended. When the \<^verbatim>\<open>try\<close> body of one pass of the loop raises an
  \<^verbatim>\<open>InternalRedirectException\<close> to the module \<open>m\<close> and the function \<open>f\<close>, the handler
  of lines 75 to 90 runs once. If a receiver of the internal-redirect signal raises, or
  the import of \<open>m\<close> raises anything but \<^verbatim>\<open>ImportError\<close>, that exception leaves
  \<^verbatim>\<open>route_request\<close> and no error marker is built. Otherwise the pass ends in exactly one
  re-resolution and the loop starts its next pass: the request's module and function are
  \<open>m\<close> and \<open>f\<close>; its callback is the attribute \<open>f\<close> of the imported module, or a
  \<^verbatim>\<open>ViewDoesNotExist\<close> object when the import raised \<^verbatim>\<open>ImportError\<close> or the attribute
  is missing or \<^verbatim>\<open>None\<close>; one line is logged and (with signals on) one signal is sent.
\<close>

theorem internal_redirect_re_resolves:
  assumes raised: "route_attempt env d kw w = (Inl (InternalRedirectException m f), w1)"
  shows
   "(SIGNALS env \<and>
     send (internal_redirect_receivers env)
       (request.truncate d, InternalRedirectException m f) = Inl e \<longrightarrow>
     route_request env d kw w =
       Some (Inl e, w1\<lparr>sent := sent w1 @ [dmp_signal_internal_redirect_exception]\<rparr>)) \<and>
    (\<not> SIGNALS env \<or>
     (\<exists>rets. send (internal_redirect_receivers env)
               (request.truncate d, InternalRedirectException m f) = Inr rets) \<longrightarrow>
     (import_module env m = Inl x \<and> x \<noteq> ImportError \<longrightarrow>
        route_request env d kw w =
          Some (Inl x,
                if SIGNALS env
                then w1\<lparr>sent := sent w1 @ [dmp_signal_internal_redirect_exception]\<rparr>
                else w1)) \<and>
     ((\<exists>md. import_module env m = Inr md) \<or> import_module env m = Inl ImportError \<longrightarrow>
        (\<exists>cb w2.
           route_step env d kw w =
             Again (d\<lparr>dmp_router_module := m, dmp_router_function := f,
                      dmp_router_callback := Some cb\<rparr>) w2 \<and>
           route_request env d kw w =
             route_request env
               (d\<lparr>dmp_router_module := m, dmp_router_function := f,
                  dmp_router_callback := Some cb\<rparr>) kw w2 \<and>
           logged w2 =
             logged w1 @ [Log INFO (''received an InternalViewRedirect to '' @ m @ '' -> '' @ f)] \<and>
           sent w2 =
             sent w1 @ (if SIGNALS env then [dmp_signal_internal_redirect_exception] else []) \<and>
           (import_module env m = Inl ImportError \<longrightarrow>
              cb = ExceptionObject (ViewDoesNotExist
                     (''view '' @ m @ ''.'' @ f @ '' not found during internal redirect.''))) \<and>
           (\<forall>md. import_module env m = Inr md \<longrightarrow>
              cb = (case map_of (mod_attrs md) f of
                      None \<Rightarrow> ExceptionObject (ViewDoesNotExist
                        (''module '' @ m @ '' found successfully during internal redirect, but view function ''
                           @ f @ '' is not defined in the module.''))
                    | Some obj \<Rightarrow>
                        if obj = PyOther PyNone
                        then ExceptionObject (ViewDoesNotExist
                          (''module '' @ m @ '' found successfully during internal redirect, but view function ''
                             @ f @ '' is not defined in the module.''))
                        else ModuleAttribute obj)))))"
proof (intro conjI impI)
  assume h: "SIGNALS env \<and>
     send (internal_redirect_receivers env)
       (request.truncate d, InternalRedirectException m f) = Inl e"
  then have "internal_redirect env d m f w1 =
      Finished (Inl e) (w1\<lparr>sent := sent w1 @ [dmp_signal_internal_redirect_exception]\<rparr>)"
    by (simp add: internal_redirect_def Let_def)
  then have "route_step env d kw w =
      Finished (Inl e) (w1\<lparr>sent := sent w1 @ [dmp_signal_internal_redirect_exception]\<rparr>)"
    by (simp add: route_step_def raised)
  then show "route_request env d kw w =
       Some (Inl e, w1\<lparr>sent := sent w1 @ [dmp_signal_internal_redirect_exception]\<rparr>)"
    by (rule route_request_Finished)
next
  assume quiet: "\<not> SIGNALS env \<or>
     (\<exists>rets. send (internal_redirect_receivers env)
               (request.truncate d, InternalRedirectException m f) = Inr rets)"
    and failed: "import_module env m = Inl x \<and> x \<noteq> ImportError"
  let ?w1' = "if SIGNALS env
              then w1\<lparr>sent := sent w1 @ [dmp_signal_internal_redirect_exception]\<rparr> else w1"
  from quiet obtain rets where rcv: "(if SIGNALS env
               then send (internal_redirect_receivers env)
                      (request.truncate d, InternalRedirectException m f)
               else Inr []) = Inr rets"
    by (cases "SIGNALS env") auto
  from failed have "re_resolve m f (import_module env m) = Inl x"
    by (cases x) simp_all
  then have "internal_redirect env d m f w1 = Finished (Inl x) ?w1'"
    unfolding internal_redirect_def Let_def rcv by simp
  then have "route_step env d kw w = Finished (Inl x) ?w1'"
    by (simp add: route_step_def raised)
  then show "route_request env d kw w = Some (Inl x, ?w1')"
    by (rule route_request_Finished)
next
  assume quiet: "\<not> SIGNALS env \<or>
     (\<exists>rets. send (internal_redirect_receivers env)
               (request.truncate d, InternalRedirectException m f) = Inr rets)"
    and imported: "(\<exists>md. import_module env m = Inr md) \<or> import_module env m = Inl ImportError"
  let ?w1' = "if SIGNALS env
              then w1\<lparr>sent := sent w1 @ [dmp_signal_internal_redirect_exception]\<rparr> else w1"
  let ?w2 = "log_to ?w1'
      (Log INFO (''received an InternalViewRedirect to '' @ m @ '' -> '' @ f))"
  from imported obtain cb where cb: "re_resolve m f (import_module env m) = Inr cb"
    by auto
  from quiet obtain rets where rcv: "(if SIGNALS env
               then send (internal_redirect_receivers env)
                      (request.truncate d, InternalRedirectException m f)
               else Inr []) = Inr rets"
    by (cases "SIGNALS env") auto
  have ir: "internal_redirect env d m f w1 =
      Again (d\<lparr>dmp_router_module := m, dmp_router_function := f,
               dmp_router_callback := Some cb\<rparr>) ?w2"
    unfolding internal_redirect_def Let_def rcv cb by simp
  then have step: "route_step env d kw w =
      Again (d\<lparr>dmp_router_module := m, dmp_router_function := f,
               dmp_router_callback := Some cb\<rparr>) ?w2"
    by (simp add: route_step_def raised)
  from cb have c1: "import_module env m = Inl ImportError \<longrightarrow>
         cb = ExceptionObject (ViewDoesNotExist
                (''view '' @ m @ ''.'' @ f @ '' not found during internal redirect.''))"
    by (auto simp: redirect_no_module_message_def)
  from cb have c2: "\<forall>md. import_module env m = Inr md \<longrightarrow>
         cb = (case map_of (mod_attrs md) f of
                 None \<Rightarrow> ExceptionObject (ViewDoesNotExist
                   (''module '' @ m @ '' found successfully during internal redirect, but view function ''
                      @ f @ '' is not defined in the module.''))
               | Some obj \<Rightarrow>
                   if obj = PyOther PyNone
                   then ExceptionObject (ViewDoesNotExist
                     (''module '' @ m @ '' found successfully during internal redirect, but view function ''
                        @ f @ '' is not defined in the module.''))
                   else ModuleAttribute obj)"
    by (auto simp: attribute_or_marker_eq redirect_no_function_message_def split: option.splits)
  have l: "logged ?w2 =
        logged w1 @ [Log INFO (''received an InternalViewRedirect to '' @ m @ '' -> '' @ f)]"
    by simp
  have s: "sent ?w2 =
        sent w1 @ (if SIGNALS env then [dmp_signal_internal_redirect_exception] else [])"
    by simp
  from step route_request_Again [OF step] l s c1 c2
  show "\<exists>cb w2.
           route_step env d kw w =
             Again (d\<lparr>dmp_router_module := m, dmp_router_function := f,
                      dmp_router_callback := Some cb\<rparr>) w2 \<and>
           route_request env d kw w =
             route_request env
               (d\<lparr>dmp_router_module := m, dmp_router_function := f,
                  dmp_router_callback := Some cb\<rparr>) kw w2 \<and>
           logged w2 =
             logged w1 @ [Log INFO (''received an InternalViewRedirect to '' @ m @ '' -> '' @ f)] \<and>
           sent w2 =
             sent w1 @ (if SIGNALS env then [dmp_signal_internal_redirect_exception] else []) \<and>
           (import_module env m = Inl ImportError \<longrightarrow>
              cb = ExceptionObject (ViewDoesNotExist
                     (''view '' @ m @ ''.'' @ f @ '' not found during internal redirect.''))) \<and>
           (\<forall>md. import_module env m = Inr md \<longrightarrow>
              cb = (case map_of (mod_attrs md) f of
                      None \<Rightarrow> ExceptionObject (ViewDoesNotExist
                        (''module '' @ m @ '' found successfully during internal redirect, but view function ''
                           @ f @ '' is not defined in the module.''))
                    | Some obj \<Rightarrow>
                        if obj = PyOther PyNone
                        then ExceptionObject (ViewDoesNotExist
                          (''module '' @ m @ '' found successfully during internal redirect, but view function ''
                             @ f @ '' is not defined in the module.''))
                        else ModuleAttribute obj))"
    by blast
qed

theorem internal_redirect_re_resolves_witness:
  "route_attempt site (dispatching (router_for forward) ''forward'') [] fresh =
     (Inl (InternalRedirectException ''homepage.views.index'' ''process_request''),
      \<lparr>logged = [], sent = [dmp_signal_pre_process_request]\<rparr>) \<and>
   send (internal_redirect_receivers site)
     (request.truncate (dispatching (router_for forward) ''forward''),
      InternalRedirectException ''homepage.views.index'' ''process_request'') = Inr [] \<and>
   import_module site ''homepage.views.index'' = Inr index_module \<and>
   route_step site (dispatching (router_for forward) ''forward'') [] fresh =
     Again
       ((dispatching (router_for forward) ''forward'')
          \<lparr>dmp_router_module := ''homepage.views.index'',
           dmp_router_function := ''process_request'',
           dmp_router_callback := Some (ModuleAttribute (PyFunction process_request))\<rparr>)
       \<lparr>logged =
          [Log INFO ''received an InternalViewRedirect to homepage.views.index -> process_request''],
        sent = [dmp_signal_pre_process_request, dmp_signal_internal_redirect_exception]\<rparr> \<and>
   route_request site (dispatching (router_for forward) ''forward'') [] fresh =
     Some (Inl (AttributeError ''get_response''),
       \<lparr>logged =
          [Log INFO ''received an InternalViewRedirect to homepage.views.index -> process_request''],
        sent = [dmp_signal_pre_process_request, dmp_signal_internal_redirect_exception,
                dmp_signal_pre_process_request]\<rparr>) \<and>
   route_attempt broken_site (dispatching (router_for forward) ''forward'') [] fresh =
     (Inl (InternalRedirectException ''homepage.views.index'' ''process_request''),
      \<lparr>logged = [], sent = [dmp_signal_pre_process_request]\<rparr>) \<and>
   import_module broken_site ''homepage.views.index'' = Inl (OtherException ''SyntaxError'') \<and>
   route_request broken_site (dispatching (router_for forward) ''forward'') [] fresh =
     Some (Inl (OtherException ''SyntaxError''),
       \<lparr>logged = [],
        sent = [dmp_signal_pre_process_request, dmp_signal_internal_redirect_exception]\<rparr>) \<and>
   route_attempt guarded_site (dispatching (router_for forward) ''forward'') [] fresh =
     (Inl (InternalRedirectException ''homepage.views.index'' ''process_request''),
      \<lparr>logged = [], sent = [dmp_signal_pre_process_request]\<rparr>) \<and>
   send (internal_redirect_receivers guarded_site)
     (request.truncate (dispatching (router_for forward) ''forward''),
      InternalRedirectException ''homepage.views.index'' ''process_request'')
     = Inl (OtherException ''PermissionDenied'') \<and>
   route_request guarded_site (dispatching (router_for forward) ''forward'') [] fresh =
     Some (Inl (OtherException ''PermissionDenied''),
       \<lparr>logged = [],
        sent = [dmp_signal_pre_process_request, dmp_signal_internal_redirect_exception]\<rparr>)"
proof -
  let ?d = "dispatching (router_for forward) ''forward''"
  let ?exc = "InternalRedirectException ''homepage.views.index'' ''process_request''"
  let ?w1 = "\<lparr>logged = [], sent = [dmp_signal_pre_process_request]\<rparr>"
  let ?w2 = "\<lparr>logged =
          [Log INFO ''received an InternalViewRedirect to homepage.views.index -> process_request''],
        sent = [dmp_signal_pre_process_request, dmp_signal_internal_redirect_exception]\<rparr>"
  let ?d' = "?d\<lparr>dmp_router_module := ''homepage.views.index'',
           dmp_router_function := ''process_request'',
           dmp_router_callback := Some (ModuleAttribute (PyFunction process_request))\<rparr>"
  have raised: "route_attempt site ?d [] fresh = (Inl ?exc, ?w1)"
    by (simp add: route_attempt_def Let_def dispatching_def router_for_def site_def fresh_def
        send_pre_def call_view_def ViewFunctionRouter_get_response_def get_response_call_def
        check_length_def forward_def)
  have rcv: "send (internal_redirect_receivers site) (request.truncate ?d, ?exc) = Inr []"
    by (simp add: site_def)
  have imp: "import_module site ''homepage.views.index'' = Inr index_module"
    by (simp add: site_def)
  have sig: "SIGNALS site"
    by (simp add: site_def)
  from rcv have quiet: "\<not> SIGNALS site \<or>
      (\<exists>rets. send (internal_redirect_receivers site) (request.truncate ?d, ?exc) = Inr rets)"
    by blast
  from imp have imported: "(\<exists>md. import_module site ''homepage.views.index'' = Inr md) \<or>
      import_module site ''homepage.views.index'' = Inl ImportError"
    by blast
  from internal_redirect_re_resolves [OF raised, THEN conjunct2, rule_format, OF quiet,
      THEN conjunct2, rule_format, OF imported]
  obtain cb w2 where
    step: "route_step site ?d [] fresh =
        Again (?d\<lparr>dmp_router_module := ''homepage.views.index'',
                 dmp_router_function := ''process_request'',
                 dmp_router_callback := Some cb\<rparr>) w2"
    and loop: "route_request site ?d [] fresh =
        route_request site (?d\<lparr>dmp_router_module := ''homepage.views.index'',
                 dmp_router_function := ''process_request'',
                 dmp_router_callback := Some cb\<rparr>) [] w2"
    and l: "logged w2 = logged ?w1
        @ [Log INFO (''received an InternalViewRedirect to '' @ ''homepage.views.index'' @ '' -> ''
             @ ''process_request'')]"
    and s: "sent w2 = sent ?w1
        @ (if SIGNALS site then [dmp_signal_internal_redirect_exception] else [])"
    and c: "\<forall>md. import_module site ''homepage.views.index'' = Inr md \<longrightarrow>
         cb = (case map_of (mod_attrs md) ''process_request'' of
                 None \<Rightarrow> ExceptionObject (ViewDoesNotExist
                   (''module '' @ ''homepage.views.index'' @ '' found successfully during internal redirect, but view function ''
                      @ ''process_request'' @ '' is not defined in the module.''))
               | Some obj \<Rightarrow>
                   if obj = PyOther PyNone
                   then ExceptionObject (ViewDoesNotExist
                     (''module '' @ ''homepage.views.index'' @ '' found successfully during internal redirect, but view function ''
                        @ ''process_request'' @ '' is not defined in the module.''))
                   else ModuleAttribute obj)"
    by blast
  from c imp have cb: "cb = ModuleAttribute (PyFunction process_request)"
    by (simp add: index_module_def)
  from l s sig have w2: "w2 = ?w2"
    by (cases w2) simp
  from step cb w2 have r1: "route_step site ?d [] fresh = Again ?d' ?w2"
    by simp
  have "route_request site ?d' [] ?w2 =
     Some (Inl (AttributeError (if info_enabled site then ''message'' else ''get_response'')),
       \<lparr>logged =
          [Log INFO ''received an InternalViewRedirect to homepage.views.index -> process_request''],
        sent = [dmp_signal_pre_process_request, dmp_signal_internal_redirect_exception,
                dmp_signal_pre_process_request]\<rparr>)"
    by (rule module_attribute_is_not_a_router [where obj = "PyFunction process_request"])
      (simp_all add: send_pre_def site_def)
  with loop cb w2 have r2: "route_request site ?d [] fresh =
     Some (Inl (AttributeError ''get_response''),
       \<lparr>logged =
          [Log INFO ''received an InternalViewRedirect to homepage.views.index -> process_request''],
        sent = [dmp_signal_pre_process_request, dmp_signal_internal_redirect_exception,
                dmp_signal_pre_process_request]\<rparr>)"
    by (simp add: site_def)
  have raised_b: "route_attempt broken_site ?d [] fresh = (Inl ?exc, ?w1)"
    by (simp add: route_attempt_def Let_def dispatching_def router_for_def broken_site_def
        site_def fresh_def send_pre_def call_view_def ViewFunctionRouter_get_response_def
        get_response_call_def check_length_def forward_def)
  have imp_b: "import_module broken_site ''homepage.views.index''
      = Inl (OtherException ''SyntaxError'')"
    by (simp add: broken_site_def)
  have rcv_b: "\<not> SIGNALS broken_site \<or>
      (\<exists>rets. send (internal_redirect_receivers broken_site) (request.truncate ?d, ?exc)
         = Inr rets)"
    by (simp add: broken_site_def site_def)
  have sig_b: "SIGNALS broken_site"
    by (simp add: broken_site_def site_def)
  from internal_redirect_re_resolves [OF raised_b, THEN conjunct2, rule_format, OF rcv_b,
      THEN conjunct1, of "OtherException ''SyntaxError''"] imp_b sig_b
  have r3: "route_request broken_site ?d [] fresh =
     Some (Inl (OtherException ''SyntaxError''),
       \<lparr>logged = [],
        sent = [dmp_signal_pre_process_request, dmp_signal_internal_redirect_exception]\<rparr>)"
    by simp
  have raised_g: "route_attempt guarded_site ?d [] fresh = (Inl ?exc, ?w1)"
    by (simp add: route_attempt_def Let_def dispatching_def router_for_def guarded_site_def
        site_def fresh_def send_pre_def call_view_def ViewFunctionRouter_get_response_def
        get_response_call_def check_length_def forward_def)
  have rcv_g: "send (internal_redirect_receivers guarded_site) (request.truncate ?d, ?exc)
      = Inl (OtherException ''PermissionDenied'')"
    by (simp add: guarded_site_def)
  have sig_g: "SIGNALS guarded_site"
    by (simp add: guarded_site_def site_def)
  from internal_redirect_re_resolves [OF raised_g, THEN conjunct1,
      of "OtherException ''PermissionDenied''"] rcv_g sig_g
  have r4: "route_request guarded_site ?d [] fresh =
     Some (Inl (OtherException ''PermissionDenied''),
       \<lparr>logged = [],
        sent = [dmp_signal_pre_process_request, dmp_signal_internal_redirect_exception]\<rparr>)"
    by simp
  from raised rcv imp r1 r2 raised_b imp_b r3 raised_g rcv_g r4 show ?thesis
    by blast
qed

text \<open>
  C6 as stated has an error marker built whenever a step of the re-resolution fails. The
  handler catches \<^verbatim>\<open>ImportError\<close> only (line 87): when the import of the target module
  fails with another exception, no marker is built, the request gets no new callback
  and the exception leaves \<^verbatim>\<open>route_request\<close>.
\<close>

theorem internal_redirect_import_failure_propagates:
  "route_attempt broken_site (dispatching (router_for forward) ''forward'') [] fresh =
     (Inl (InternalRedirectException ''homepage.views.index'' ''process_request''),
      \<lparr>logged = [], sent = [dmp_signal_pre_process_request]\<rparr>) \<and>
   import_module broken_site ''homepage.views.index'' = Inl (OtherException ''SyntaxError'') \<and>
   route_step broken_site (dispatching (router_for forward) ''forward'') [] fresh =
     Finished (Inl (OtherException ''SyntaxError''))
       \<lparr>logged = [],
        sent = [dmp_signal_pre_process_request, dmp_signal_internal_redirect_exception]\<rparr> \<and>
   route_request broken_site (dispatching (router_for forward) ''forward'') [] fresh =
     Some (Inl (OtherException ''SyntaxError''),
       \<lparr>logged = [],
        sent = [dmp_signal_pre_process_request, dmp_signal_internal_redirect_exception]\<rparr>)"
proof -
  let ?d = "dispatching (router_for forward) ''forward''"
  have raised: "route_attempt broken_site ?d [] fresh =
     (Inl (InternalRedirectException ''homepage.views.index'' ''process_request''),
      \<lparr>logged = [], sent = [dmp_signal_pre_process_request]\<rparr>)"
    by (simp add: route_attempt_def Let_def dispatching_def router_for_def broken_site_def
        site_def fresh_def send_pre_def call_view_def ViewFunctionRouter_get_response_def
        get_response_call_def check_length_def forward_def)
  have imp: "import_module broken_site ''homepage.views.index''
      = Inl (OtherException ''SyntaxError'')"
    by (simp add: broken_site_def)
  from raised have step: "route_step broken_site ?d [] fresh =
     Finished (Inl (OtherException ''SyntaxError''))
       \<lparr>logged = [],
        sent = [dmp_signal_pre_process_request, dmp_signal_internal_redirect_exception]\<rparr>"
    by (simp add: route_step_def internal_redirect_def Let_def broken_site_def site_def)
  from raised imp step route_request_Finished [OF step] show ?thesis by simp
qed

text \<open>
  C7 says that with a \<^verbatim>\<open>RegistryExceptionRouter\<close> or a \<^verbatim>\<open>ViewDoesNotExist\<close> object as
  the callback the loop logs the diagnostic and ends not found, with no hook run. For the
  \<^verbatim>\<open>RegistryExceptionRouter\<close> it does (\<open>registry_exception_router_short_circuits\<close>
  above). For the \<^verbatim>\<open>ViewDoesNotExist\<close> object, line 45 calls \<^verbatim>\<open>message\<close> on an
  exception, which has no such attribute: \<^verbatim>\<open>route_request\<close> ends with
  \<^verbatim>\<open>AttributeError\<close>, not \<^verbatim>\<open>Http404\<close>, and the diagnostic is not logged. The second
  part runs the loop from a view that redirects internally to a module that cannot be
  imported, which is how line 88 puts such an object on the request.
\<close>

theorem view_not_found_marker_raises:
  "route_request env (d\<lparr>dmp_router_callback := Some (ExceptionObject (ViewDoesNotExist m))\<rparr>) kw w =
     Some (Inl (AttributeError ''message''),
           if info_enabled env
           then log_to w (Log INFO (processing_message (request.truncate d))) else w) \<and>
   route_request site (dispatching (router_for astray) ''astray'') [] fresh =
     Some (Inl (AttributeError ''message''),
           \<lparr>logged =
              [Log INFO ''received an InternalViewRedirect to homepage.views.gone -> process_request''],
            sent = [dmp_signal_pre_process_request, dmp_signal_internal_redirect_exception]\<rparr>)"
proof
  let ?d = "d\<lparr>dmp_router_callback := Some (ExceptionObject (ViewDoesNotExist m))\<rparr>"
  have "route_attempt env ?d kw w =
     (Inl (AttributeError ''message''),
      if info_enabled env
      then log_to w (Log INFO (processing_message (request.truncate ?d))) else w)"
    by (rule route_attempt_ViewDoesNotExist) simp
  then have "route_step env ?d kw w =
     Finished (Inl (AttributeError ''message''))
       (if info_enabled env
        then log_to w (Log INFO (processing_message (request.truncate d))) else w)"
    by (simp add: route_step_def)
  then show "route_request env ?d kw w =
     Some (Inl (AttributeError ''message''),
           if info_enabled env
           then log_to w (Log INFO (processing_message (request.truncate d))) else w)"
    by (rule route_request_Finished)
next
  let ?d1 = "dispatching (router_for astray) ''astray''"
  let ?w2 = "\<lparr>logged =
              [Log INFO ''received an InternalViewRedirect to homepage.views.gone -> process_request''],
            sent = [dmp_signal_pre_process_request, dmp_signal_internal_redirect_exception]\<rparr>"
  let ?d2 = "?d1\<lparr>dmp_router_module := ''homepage.views.gone'',
              dmp_router_function := ''process_request'',
              dmp_router_callback := Some (ExceptionObject (ViewDoesNotExist
                ''view homepage.views.gone.process_request not found during internal redirect.''))\<rparr>"
  have "route_attempt site ?d1 [] fresh =
     (Inl (InternalRedirectException ''homepage.views.gone'' ''process_request''),
      \<lparr>logged = [], sent = [dmp_signal_pre_process_request]\<rparr>)"
    by (simp add: route_attempt_def Let_def dispatching_def router_for_def site_def fresh_def
        send_pre_def call_view_def ViewFunctionRouter_get_response_def get_response_call_def
        check_length_def astray_def)
  then have first: "route_step site ?d1 [] fresh = Again ?d2 ?w2"
    by (simp add: route_step_def internal_redirect_def Let_def site_def log_to_def
        redirect_no_module_message_def)
  have "route_attempt site ?d2 [] ?w2 = (Inl (AttributeError ''message''), ?w2)"
    by (simp add: route_attempt_def Let_def dispatching_def site_def)
  then have second: "route_step site ?d2 [] ?w2 = Finished (Inl (AttributeError ''message'')) ?w2"
    by (simp add: route_step_def)
  from route_request_Again [OF first] route_request_Finished [OF second]
  show "route_request site ?d1 [] fresh = Some (Inl (AttributeError ''message''), ?w2)"
    by simp
qed



end
